theory Spec2Isabelle
  imports Main
begin

section \<open>The host language\<close>

text \<open>
  Lumos is written in JavaScript. Its numbers are the host's IEEE-754 doubles, which
  have no counterpart in HOL, so the type of numbers is a type variable \<open>'n\<close> and the
  host's operations on them are the fields of a record that every function reading a
  number takes as its first argument.
  \<^item> \<open>num_add\<close> ... \<open>num_mod\<close>: the operators \<^verbatim>\<open>+ - * / %\<close> on two numbers;
  \<^item> \<open>num_to_string\<close>: the conversion of a number inside a template literal;
  \<^item> \<open>num_truthy\<close>: whether a number counts as true (every number but the zeros and NaN);
  \<^item> \<open>parseFloat\<close>: the host function of that name, from a numeral's text to a number;
  \<^item> \<open>num_of_int\<close>: the number an integer numeral of the JavaScript source denotes, such
    as the \<^verbatim>\<open>1\<close> of the default step and the \<^verbatim>\<open>0\<close> of \<^verbatim>\<open>|| 0\<close>.
\<close>

record 'n host =
  num_add :: "'n \<Rightarrow> 'n \<Rightarrow> 'n"
  num_sub :: "'n \<Rightarrow> 'n \<Rightarrow> 'n"
  num_mul :: "'n \<Rightarrow> 'n \<Rightarrow> 'n"
  num_div :: "'n \<Rightarrow> 'n \<Rightarrow> 'n"
  num_mod :: "'n \<Rightarrow> 'n \<Rightarrow> 'n"
  num_to_string :: "'n \<Rightarrow> string"
  num_truthy :: "'n \<Rightarrow> bool"
  parseFloat :: "string \<Rightarrow> 'n"
  num_of_int :: "int \<Rightarrow> 'n"

text \<open>
  The primitive values a token, a literal of the syntax tree or an operand of the
  intermediate representation can carry: a number, a string, a boolean or null.
\<close>

datatype 'n literal = Num 'n | Str string | Bool bool | Null

section \<open>The intermediate representation and the optimizer\<close>

text \<open>
  \<^verbatim>\<open>emit(op, arg1 = null, arg2 = null, result = null)\<close> pushes
  \<^verbatim>\<open>{ op, arg1, arg2, result }\<close>. An operand is what the generator's visitors return:
  a literal's value (number, string, boolean, null) or a name, which is a string too.
  The result is a name or null.
\<close>

type_synonym 'n operand = "'n literal"

record 'n instruction =
  op :: string
  arg1 :: "'n operand"
  arg2 :: "'n operand"
  result :: "string option"

text \<open>\<^verbatim>\<open>['+', '-', '*', '/', '%'].includes(inst.op)\<close>\<close>

definition is_arithmetic :: "string \<Rightarrow> bool" where
  "is_arithmetic opc = (opc \<in> set [''+'', ''-'', ''*'', ''/'', ''%''])"

text \<open>The \<^verbatim>\<open>switch (inst.op)\<close> of \<^verbatim>\<open>constantFolding\<close>, entered only for the five operators.\<close>

definition folded_value :: "'n host \<Rightarrow> string \<Rightarrow> 'n \<Rightarrow> 'n \<Rightarrow> 'n" where
  "folded_value h opc a b =
     (if opc = ''+'' then num_add h a b
      else if opc = ''-'' then num_sub h a b
      else if opc = ''*'' then num_mul h a b
      else if opc = ''/'' then num_div h a b
      else num_mod h a b)"

definition fold_instruction :: "'n host \<Rightarrow> 'n instruction \<Rightarrow> 'n instruction" where
  "fold_instruction h inst =
     (if is_arithmetic (op inst) then
        (case (arg1 inst, arg2 inst) of
           (Num a, Num b) \<Rightarrow>
             \<lparr>op = ''assign'', arg1 = Num (folded_value h (op inst) a b), arg2 = Null,
              result = result inst\<rparr>
         | _ \<Rightarrow> inst)
      else inst)"

definition constantFolding :: "'n host \<Rightarrow> 'n instruction list \<Rightarrow> 'n instruction list" where
  "constantFolding h instructions = map (fold_instruction h) instructions"

text \<open>
  JavaScript truthiness of the two kinds of field \<^verbatim>\<open>deadCodeElimination\<close> tests:
  \<^verbatim>\<open>if (inst.result)\<close> holds for a non-empty name, and
  \<^verbatim>\<open>inst.arg1 && typeof inst.arg1 === 'string'\<close> for a non-empty string operand.
\<close>

definition result_name :: "string option \<Rightarrow> string option" where
  "result_name r = (case r of Some s \<Rightarrow> (if s = [] then None else Some s) | None \<Rightarrow> None)"

definition string_operand :: "'n operand \<Rightarrow> string option" where
  "string_operand a = (case a of Str s \<Rightarrow> (if s = [] then None else Some s) | _ \<Rightarrow> None)"

definition add_opt :: "string option \<Rightarrow> string set \<Rightarrow> string set" where
  "add_opt x S = (case x of Some s \<Rightarrow> insert s S | None \<Rightarrow> S)"

text \<open>The \<^verbatim>\<open>forEach\<close> that fills \<^verbatim>\<open>labels\<close>.\<close>

definition collect_labels :: "'n instruction list \<Rightarrow> string set" where
  "collect_labels instructions =
     foldl (\<lambda>labels inst.
        if op inst = ''label'' \<or> op inst = ''goto'' \<or> op inst = ''if_false''
        then add_opt (string_operand (arg1 inst)) (add_opt (result_name (result inst)) labels)
        else labels) {} instructions"

text \<open>The backward \<^verbatim>\<open>for\<close> loop that fills \<^verbatim>\<open>used\<close>, from the last instruction to the first.\<close>

definition collect_used :: "'n instruction list \<Rightarrow> string set" where
  "collect_used instructions =
     foldl (\<lambda>used inst.
        add_opt (string_operand (arg2 inst))
          (add_opt (string_operand (arg1 inst))
            (add_opt (result_name (result inst)) used))) {} (rev instructions)"

text \<open>
  \<^verbatim>\<open>labels.has(inst.arg1)\<close>: the set holds strings only, so an operand of another type
  is never a member; the empty string is never added.
\<close>

definition has_operand :: "string set \<Rightarrow> 'n operand \<Rightarrow> bool" where
  "has_operand S a = (case a of Str s \<Rightarrow> s \<in> S | _ \<Rightarrow> False)"

definition keep_instruction :: "string set \<Rightarrow> string set \<Rightarrow> 'n instruction \<Rightarrow> bool" where
  "keep_instruction labels used inst =
     (if op inst = ''label'' then has_operand labels (arg1 inst)
      else (case result_name (result inst) of
              None \<Rightarrow> True
            | Some r \<Rightarrow> r \<in> used))"

definition deadCodeElimination :: "'n instruction list \<Rightarrow> 'n instruction list" where
  "deadCodeElimination instructions =
     filter (keep_instruction (collect_labels instructions) (collect_used instructions))
       instructions"

text \<open>
  The key \<^verbatim>\<open>`${inst.op}:${inst.arg1}:${inst.arg2}`\<close>: a template literal converts each
  operand to a string, so the name \<open>x\<close> and the string literal \<open>x\<close> give the same key.
\<close>

definition operand_to_string :: "'n host \<Rightarrow> 'n operand \<Rightarrow> string" where
  "operand_to_string h a =
     (case a of
        Num n \<Rightarrow> num_to_string h n
      | Str s \<Rightarrow> s
      | Bool b \<Rightarrow> (if b then ''true'' else ''false'')
      | Null \<Rightarrow> ''null'')"

definition expression_key :: "'n host \<Rightarrow> 'n instruction \<Rightarrow> string" where
  "expression_key h inst =
     op inst @ '':'' @ operand_to_string h (arg1 inst) @ '':'' @ operand_to_string h (arg2 inst)"

text \<open>\<^verbatim>\<open>expressions.get(key)\<close> is the earlier instruction's result: a name or null.\<close>

definition name_operand :: "string option \<Rightarrow> 'n operand" where
  "name_operand r = (case r of Some s \<Rightarrow> Str s | None \<Rightarrow> Null)"

text \<open>
  The \<^verbatim>\<open>map\<close> of \<^verbatim>\<open>commonSubexpressionElimination\<close>, with the \<^verbatim>\<open>Map\<close> it updates passed
  along: \<open>expressions key = Some r\<close> when the key has been set to \<open>r\<close>.
\<close>

fun cse_loop :: "'n host \<Rightarrow> (string \<rightharpoonup> string option) \<Rightarrow> 'n instruction list
    \<Rightarrow> 'n instruction list" where
  "cse_loop h expressions [] = []"
| "cse_loop h expressions (inst # rest) =
     (if is_arithmetic (op inst) then
        (case expressions (expression_key h inst) of
           Some earlier \<Rightarrow>
             \<lparr>op = ''assign'', arg1 = name_operand earlier, arg2 = Null, result = result inst\<rparr>
               # cse_loop h expressions rest
         | None \<Rightarrow>
             inst # cse_loop h (expressions(expression_key h inst \<mapsto> result inst)) rest)
      else inst # cse_loop h expressions rest)"

definition commonSubexpressionElimination ::
    "'n host \<Rightarrow> 'n instruction list \<Rightarrow> 'n instruction list" where
  "commonSubexpressionElimination h instructions = cse_loop h Map.empty instructions"

definition optimize :: "'n host \<Rightarrow> 'n instruction list \<Rightarrow> 'n instruction list" where
  "optimize h instructions =
     commonSubexpressionElimination h (deadCodeElimination (constantFolding h instructions))"

section \<open>A host for closed examples\<close>

text \<open>
  The theorems below hold for every host. Where one of them is applied to a concrete
  program, the numbers are the integers with their own \<open>+\<close>, \<open>-\<close> and \<open>*\<close>, which is how
  the doubles behave on integers of small magnitude. The examples use no division, and
  their numerals are plain digit sequences.
\<close>

fun digits_value :: "string \<Rightarrow> int \<Rightarrow> int" where
  "digits_value [] acc = acc"
| "digits_value (c # cs) acc =
     (if 48 \<le> (of_char c :: int) \<and> (of_char c :: int) \<le> 57
      then digits_value cs (10 * acc + (of_char c - 48))
      else acc)"

fun nat_to_string :: "nat \<Rightarrow> string" where
  "nat_to_string n =
     (if n < 10 then [char_of (48 + n)]
      else nat_to_string (n div 10) @ [char_of (48 + n mod 10)])"

declare nat_to_string.simps [simp del]

definition int_to_string :: "int \<Rightarrow> string" where
  "int_to_string i =
     (if i < 0 then ''-'' @ nat_to_string (nat (- i)) else nat_to_string (nat i))"

definition integer_host :: "int host" where
  "integer_host =
     \<lparr>num_add = (+), num_sub = (-), num_mul = (*), num_div = (div), num_mod = (mod),
      num_to_string = int_to_string, num_truthy = (\<lambda>n. n \<noteq> 0),
      parseFloat = (\<lambda>s. digits_value s 0), num_of_int = (\<lambda>i. i)\<rparr>"

section \<open>The lexer\<close>

text \<open>
  The input is a list of 8-bit characters. \<^verbatim>\<open>this.input[i]\<close> beyond the end is
  \<^verbatim>\<open>undefined\<close>, here \<open>None\<close>; no comparison with a character holds for it.
\<close>

record 'n token =
  ttype :: string
  tvalue :: "'n literal"
  tline :: nat
  tcolumn :: nat

record lexer =
  input :: string
  position :: nat
  line :: nat
  column :: nat

datatype lex_error =
    UnexpectedCharacter char nat nat
  | UnterminatedString nat nat

definition current :: "lexer \<Rightarrow> char option" where
  "current s =
     (if position s < length (input s) then Some (input s ! position s) else None)"

definition peek :: "lexer \<Rightarrow> char option" where
  "peek s =
     (if position s + 1 < length (input s) then Some (input s ! (position s + 1)) else None)"

definition advance :: "lexer \<Rightarrow> lexer" where
  "advance s =
     (if current s = Some (CHR 0x0A)
      then s\<lparr>position := position s + 1, line := line s + 1, column := 1\<rparr>
      else s\<lparr>position := position s + 1, column := column s + 1\<rparr>)"

text \<open>
  \<^verbatim>\<open>/\s/\<close> on one character below 256: tab, line feed, vertical tab, form feed,
  carriage return, space and the no-break space.
\<close>

definition isSpace :: "char \<Rightarrow> bool" where
  "isSpace c = (c \<in> set [CHR 0x09, CHR 0x0A, CHR 0x0B, CHR 0x0C, CHR 0x0D, CHR 0x20, CHR 0xA0])"

definition isLetter :: "char \<Rightarrow> bool" where
  "isLetter c = (c \<in> set ''abcdefghijklmnopqrstuvwxyzABCDEFGHIJKLMNOPQRSTUVWXYZ_'')"

definition isDigit :: "char \<Rightarrow> bool" where
  "isDigit c = (c \<in> set ''0123456789'')"

definition isAlphaNumeric :: "char \<Rightarrow> bool" where
  "isAlphaNumeric c = (isLetter c \<or> isDigit c)"

text \<open>
  The loops of the form
  \<^verbatim>\<open>while (this.position < this.input.length && P(this.current())) this.advance()\<close>.
\<close>

function advance_while :: "(char \<Rightarrow> bool) \<Rightarrow> lexer \<Rightarrow> lexer" where
  "advance_while P s =
     (if position s < length (input s) \<and> P (input s ! position s)
      then advance_while P (advance s) else s)"
  by pat_completeness auto
termination
  by (relation "measure (\<lambda>(P, s). length (input s) - position s)")
     (auto simp: advance_def)

declare advance_while.simps [simp del]

definition skipWhitespace :: "lexer \<Rightarrow> lexer" where
  "skipWhitespace s = advance_while isSpace s"

definition skipLineComment :: "lexer \<Rightarrow> lexer" where
  "skipLineComment s = advance_while (\<lambda>c. c \<noteq> CHR 0x0A) s"

function block_comment_loop :: "lexer \<Rightarrow> lexer" where
  "block_comment_loop s =
     (if position s < length (input s) then
        (if current s = Some (CHR ''*'') \<and> peek s = Some (CHR ''/'')
         then advance (advance s)
         else block_comment_loop (advance s))
      else s)"
  by pat_completeness auto
termination
  by (relation "measure (\<lambda>s. length (input s) - position s)")
     (auto simp: advance_def)

declare block_comment_loop.simps [simp del]

definition skipBlockComment :: "lexer \<Rightarrow> lexer" where
  "skipBlockComment s = block_comment_loop (advance (advance s))"

text \<open>\<^verbatim>\<open>this.input.substring(start, this.position)\<close>\<close>

definition substring :: "string \<Rightarrow> nat \<Rightarrow> nat \<Rightarrow> string" where
  "substring inp start stop = take (stop - start) (drop start inp)"

definition keyword_list :: "string list" where
  "keyword_list =
     [''let'', ''const'', ''var'', ''def'', ''function'', ''return'',
      ''if'', ''else'', ''elsif'', ''elif'', ''while'', ''for'', ''do'', ''end'',
      ''break'', ''continue'', ''times'', ''to'', ''in'', ''of'',
      ''class'', ''struct'', ''interface'', ''trait'', ''module'',
      ''import'', ''export'', ''from'', ''as'', ''with'',
      ''try'', ''catch'', ''finally'', ''throw'', ''raise'',
      ''true'', ''false'', ''null'', ''nil'', ''undefined'',
      ''and'', ''or'', ''not'', ''is'', ''new'', ''delete'',
      ''async'', ''await'', ''yield'', ''lambda'', ''match'', ''case'',
      ''public'', ''private'', ''protected'', ''static'', ''final'']"

text \<open>\<^verbatim>\<open>toUpperCase\<close>, which the lexer applies to keywords only: lower-case ASCII letters.\<close>

definition toUpperCase :: "string \<Rightarrow> string" where
  "toUpperCase v =
     map (\<lambda>c. if 97 \<le> (of_char c :: nat) \<and> (of_char c :: nat) \<le> 122
              then char_of ((of_char c :: nat) - 32) else c) v"

definition readIdentifierOrKeyword :: "lexer \<Rightarrow> 'n token \<times> lexer" where
  "readIdentifierOrKeyword s =
     (let s' = advance_while isAlphaNumeric s;
          v = substring (input s) (position s) (position s')
      in (\<lparr>ttype = (if v \<in> set keyword_list then toUpperCase v else ''IDENTIFIER''),
           tvalue = Str v, tline = line s, tcolumn = column s\<rparr>, s'))"

definition readNumber :: "('n, 'm) host_scheme \<Rightarrow> lexer \<Rightarrow> 'n token \<times> lexer" where
  "readNumber h s =
     (let s1 = advance_while isDigit s;
          s2 = (if current s1 = Some (CHR ''.'')
                   \<and> (case peek s1 of Some c \<Rightarrow> isDigit c | None \<Rightarrow> False)
                then advance_while isDigit (advance s1) else s1);
          s3 = (if current s2 = Some (CHR ''e'') \<or> current s2 = Some (CHR ''E'')
                then (let s2a = advance s2;
                          s2b = (if current s2a = Some (CHR ''+'') \<or> current s2a = Some (CHR ''-'')
                                 then advance s2a else s2a)
                      in advance_while isDigit s2b)
                else s2)
      in (\<lparr>ttype = ''NUMBER'',
           tvalue = Num (parseFloat h (substring (input s) (position s) (position s3))),
           tline = line s, tcolumn = column s\<rparr>, s3))"

text \<open>
  \<^verbatim>\<open>escapeMap[escapeChar] || escapeChar\<close>; at the end of the input the character is
  \<^verbatim>\<open>undefined\<close>, and \<^verbatim>\<open>value += undefined\<close> appends the text \<open>undefined\<close>.
\<close>

definition escape_text :: "char option \<Rightarrow> string" where
  "escape_text e =
     (case e of
        None \<Rightarrow> ''undefined''
      | Some c \<Rightarrow>
          (if c = CHR ''n'' then [CHR 0x0A]
           else if c = CHR ''t'' then [CHR 0x09]
           else if c = CHR ''r'' then [CHR 0x0D]
           else [c]))"

function string_loop :: "char \<Rightarrow> lexer \<Rightarrow> string \<Rightarrow> string \<times> lexer" where
  "string_loop quote s v =
     (if position s < length (input s) \<and> input s ! position s \<noteq> quote then
        (if input s ! position s = CHR 0x5C
         then string_loop quote (advance (advance s)) (v @ escape_text (current (advance s)))
         else string_loop quote (advance s) (v @ [input s ! position s]))
      else (v, s))"
  by pat_completeness auto
termination
  by (relation "measure (\<lambda>(q, s, v). length (input s) - position s)")
     (auto simp: advance_def)

declare string_loop.simps [simp del]

definition readString :: "char \<Rightarrow> lexer \<Rightarrow> lex_error + ('n token \<times> lexer)" where
  "readString quote s =
     (case string_loop quote (advance s) [] of
        (v, s') \<Rightarrow>
          (if current s' \<noteq> Some quote then Inl (UnterminatedString (line s) (column s))
           else Inr (\<lparr>ttype = ''STRING'', tvalue = Str v, tline = line s, tcolumn = column s\<rparr>,
                     advance s')))"

definition twoCharOps :: "(string \<times> string) list" where
  "twoCharOps =
     [(''=='', ''EQ''), (''!='', ''NEQ''), (''<='', ''LTE''), (''>='', ''GTE''),
      (''&&'', ''AND''), (''||'', ''OR''), (''++'', ''INCREMENT''), (''--'', ''DECREMENT''),
      (''+='', ''PLUS_ASSIGN''), (''-='', ''MINUS_ASSIGN''), (''*='', ''MULT_ASSIGN''),
      (''/='', ''DIV_ASSIGN''), (''=>'', ''ARROW''), (''->'', ''ARROW''), (''::'', ''SCOPE''),
      (''..'', ''RANGE'')]"

definition oneCharOps :: "(string \<times> string) list" where
  "oneCharOps =
     [(''+'', ''PLUS''), (''-'', ''MINUS''), (''*'', ''MULT''), (''/'', ''DIV''), (''%'', ''MOD''),
      (''='', ''ASSIGN''), (''<'', ''LT''), (''>'', ''GT''), (''!'', ''NOT''),
      (''('', ''LPAREN''), ('')'', ''RPAREN''), (''{'', ''LBRACE''), (''}'', ''RBRACE''),
      (''['', ''LBRACKET''), ('']'', ''RBRACKET''), ('','', ''COMMA''), ('';'', ''SEMICOLON''),
      ('':'', ''COLON''), (''.'', ''DOT''), (''|'', ''PIPE''), (''&'', ''AMPERSAND''),
      (''^'', ''XOR''), (''~'', ''TILDE''), (''?'', ''QUESTION'')]"

text \<open>
  \<^verbatim>\<open>readOperator\<close> is called with a character under the cursor. At the last character
  \<^verbatim>\<open>char + next\<close> is the character followed by the text \<open>undefined\<close>, which is no key of
  \<^verbatim>\<open>twoCharOps\<close>.
\<close>

definition readOperator :: "lexer \<Rightarrow> ('n token \<times> lexer) option" where
  "readOperator s =
     (case current s of
        None \<Rightarrow> None
      | Some char \<Rightarrow>
          (case (case peek s of Some next \<Rightarrow> map_of twoCharOps [char, next] | None \<Rightarrow> None) of
             Some ty \<Rightarrow>
               Some (\<lparr>ttype = ty, tvalue = Str (substring (input s) (position s) (position s + 2)),
                      tline = line s, tcolumn = column s\<rparr>, advance (advance s))
           | None \<Rightarrow>
               (case map_of oneCharOps [char] of
                  Some ty \<Rightarrow>
                    Some (\<lparr>ttype = ty, tvalue = Str [char], tline = line s, tcolumn = column s\<rparr>,
                          advance s)
                | None \<Rightarrow> None)))"

text \<open>
  What one round of the loop of \<^verbatim>\<open>tokenize\<close> did with a stretch of the input, from a
  start offset to an end offset: skipped it as white space or as a comment, or read it
  as a token. The tokens of the source are the tokens of the \<open>Lexed\<close> segments.
\<close>

datatype skipped = Whitespace | LineComment | BlockComment

datatype 'n segment = Skipped skipped nat nat | Lexed "'n token" nat nat

text \<open>The body of the loop after \<^verbatim>\<open>skipWhitespace\<close>, with a character under the cursor.\<close>

definition lex_step :: "('n, 'm) host_scheme \<Rightarrow> lexer \<Rightarrow> lex_error + ('n segment \<times> lexer)" where
  "lex_step h s =
     (let char = input s ! position s in
      if isLetter char then
        (case readIdentifierOrKeyword s of
           (tok, s') \<Rightarrow> Inr (Lexed tok (position s) (position s'), s'))
      else if isDigit char then
        (case readNumber h s of
           (tok, s') \<Rightarrow> Inr (Lexed tok (position s) (position s'), s'))
      else if char = CHR 0x22 \<or> char = CHR 0x27 then
        (case readString char s of
           Inl e \<Rightarrow> Inl e
         | Inr (tok, s') \<Rightarrow> Inr (Lexed tok (position s) (position s'), s'))
      else if char = CHR ''/'' \<and> peek s = Some (CHR ''/'') then
        Inr (Skipped LineComment (position s) (position (skipLineComment s)), skipLineComment s)
      else if char = CHR ''/'' \<and> peek s = Some (CHR ''*'') then
        Inr (Skipped BlockComment (position s) (position (skipBlockComment s)), skipBlockComment s)
      else
        (case readOperator s of
           Some (tok, s') \<Rightarrow> Inr (Lexed tok (position s) (position s'), s')
         | None \<Rightarrow> Inl (UnexpectedCharacter char (line s) (column s))))"

subsection \<open>The loop of tokenize\<close>

text \<open>
  Every round of the loop consumes at least one character or fails; that is why the
  loop ends. The facts below say so for each reader: it keeps the input, moves the
  cursor forward and, when it succeeds, leaves it inside the input.
\<close>

lemma input_advance [simp]: "input (advance s) = input s"
  by (simp add: advance_def)

lemma position_advance [simp]: "position (advance s) = Suc (position s)"
  by (simp add: advance_def)

lemma input_advance_while [simp]: "input (advance_while P s) = input s"
proof (induction P s rule: advance_while.induct)
  case (1 P s)
  then show ?case by (simp add: advance_while.simps [of P s])
qed

lemma position_advance_while: "position s \<le> position (advance_while P s)"
proof (induction P s rule: advance_while.induct)
  case (1 P s)
  show ?case
  proof (cases "position s < length (input s) \<and> P (input s ! position s)")
    case True
    with 1 have "position (advance s) \<le> position (advance_while P (advance s))" by simp
    with True show ?thesis by (simp add: advance_while.simps [of P s])
  next
    case False
    then show ?thesis by (auto simp: advance_while.simps [of P s])
  qed
qed

lemma position_advance_while_bound:
  "position s \<le> length (input s) \<Longrightarrow> position (advance_while P s) \<le> length (input s)"
proof (induction P s rule: advance_while.induct)
  case (1 P s)
  show ?case
  proof (cases "position s < length (input s) \<and> P (input s ! position s)")
    case True
    with 1 have "position (advance_while P (advance s)) \<le> length (input (advance s))" by simp
    with True show ?thesis by (simp add: advance_while.simps [of P s])
  next
    case False
    with 1 show ?thesis by (auto simp: advance_while.simps [of P s])
  qed
qed

lemma position_advance_while_strict:
  "position s < length (input s) \<Longrightarrow> P (input s ! position s) \<Longrightarrow>
   position s < position (advance_while P s)"
  using position_advance_while [of "advance s" P]
  by (simp add: advance_while.simps [of P s])


lemma input_block_comment_loop [simp]: "input (block_comment_loop s) = input s"
proof (induction s rule: block_comment_loop.induct)
  case (1 s)
  then show ?case by (simp add: block_comment_loop.simps [of s])
qed

lemma position_block_comment_loop: "position s \<le> position (block_comment_loop s)"
proof (induction s rule: block_comment_loop.induct)
  case (1 s)
  then show ?case
    by (auto simp: block_comment_loop.simps [of s] Suc_leD)
qed

lemma position_block_comment_loop_bound:
  "position s \<le> length (input s) \<Longrightarrow> position (block_comment_loop s) \<le> length (input s)"
proof (induction s rule: block_comment_loop.induct)
  case (1 s)
  then show ?case
    by (auto simp: block_comment_loop.simps [of s] peek_def split: if_splits)
qed

lemma input_string_loop [simp]: "input (snd (string_loop q s v)) = input s"
proof (induction q s v rule: string_loop.induct)
  case (1 q s v)
  then show ?case by (simp add: string_loop.simps [of q s v])
qed

lemma position_string_loop: "position s \<le> position (snd (string_loop q s v))"
proof (induction q s v rule: string_loop.induct)
  case (1 q s v)
  then show ?case
    by (auto simp: string_loop.simps [of q s v] Suc_leD dest: Suc_leD)
qed

lemma current_Some_iff: "current s = Some c \<longleftrightarrow> position s < length (input s) \<and> input s ! position s = c"
  by (auto simp: current_def)

lemma peek_Some_bound: "peek s = Some c \<Longrightarrow> position s + 1 < length (input s)"
  by (auto simp: peek_def split: if_splits)

lemma readIdentifierOrKeyword_props:
  assumes "readIdentifierOrKeyword s = (tok, s')" "position s < length (input s)"
    "isLetter (input s ! position s)"
  shows "input s' = input s" "position s < position s'" "position s' \<le> length (input s)"
  using assms position_advance_while_strict [of s isAlphaNumeric]
    position_advance_while_bound [of s isAlphaNumeric]
  by (auto simp: readIdentifierOrKeyword_def Let_def isAlphaNumeric_def)

lemma readNumber_props:
  assumes "readNumber h s = (tok, s')" "position s < length (input s)"
    "isDigit (input s ! position s)"
  shows "input s' = input s" "position s < position s'" "position s' \<le> length (input s)"
proof -
  define s1 where "s1 = advance_while isDigit s"
  define s2 where "s2 = (if current s1 = Some (CHR ''.'')
                   \<and> (case peek s1 of Some c \<Rightarrow> isDigit c | None \<Rightarrow> False)
                then advance_while isDigit (advance s1) else s1)"
  define s2a where "s2a = advance s2"
  define s2b where "s2b = (if current s2a = Some (CHR ''+'') \<or> current s2a = Some (CHR ''-'')
                                 then advance s2a else s2a)"
  define s3 where "s3 = (if current s2 = Some (CHR ''e'') \<or> current s2 = Some (CHR ''E'')
                then advance_while isDigit s2b else s2)"
  have "snd (readNumber h s) = s3"
    unfolding readNumber_def Let_def s3_def s2b_def s2a_def s2_def s1_def by simp
  with assms(1) have s': "s' = s3" by simp
  have i1: "input s1 = input s" and p1: "position s < position s1"
    and b1: "position s1 \<le> length (input s)"
    using assms position_advance_while_strict [of s isDigit]
      position_advance_while_bound [of s isDigit]
    by (simp_all add: s1_def)
  have i2: "input s2 = input s" and p2: "position s1 \<le> position s2"
    and b2: "position s2 \<le> length (input s)"
    using i1 b1 position_advance_while [of "advance s1" isDigit]
      position_advance_while_bound [of "advance s1" isDigit]
    by (auto simp: s2_def current_Some_iff)
  have i3: "input s3 = input s" and p3: "position s2 \<le> position s3"
    and b3: "position s3 \<le> length (input s)"
    using i2 b2 position_advance_while [of s2b isDigit]
      position_advance_while_bound [of s2b isDigit]
    by (auto simp: s3_def s2b_def s2a_def current_Some_iff)
  from s' i3 show "input s' = input s" by simp
  from s' p1 p2 p3 show "position s < position s'" by simp
  from s' b3 show "position s' \<le> length (input s)" by simp
qed

lemma readString_props:
  assumes "readString q s = Inr (tok, s')"
  shows "input s' = input s" "position s < position s'" "position s' \<le> length (input s)"
proof -
  obtain v s1 where sl: "string_loop q (advance s) [] = (v, s1)" by (cases "string_loop q (advance s) []")
  with assms have cur: "current s1 = Some q" and s': "s' = advance s1"
    by (auto simp: readString_def split: if_splits)
  from sl have i1: "input s1 = input s" and p1: "Suc (position s) \<le> position s1"
    using input_string_loop [of q "advance s" "[]"] position_string_loop [of "advance s" q "[]"]
    by simp_all
  from s' i1 show "input s' = input s" by simp
  from s' p1 show "position s < position s'" by simp
  from cur s' i1 show "position s' \<le> length (input s)" by (simp add: current_Some_iff)
qed

lemma readOperator_props:
  assumes "readOperator s = Some (tok, s')"
  shows "input s' = input s" "position s < position s'" "position s' \<le> length (input s)"
  using assms
  by (auto simp: readOperator_def current_Some_iff split: option.splits dest: peek_Some_bound)

lemma skipLineComment_props:
  assumes "position s < length (input s)" "input s ! position s = CHR ''/''"
  shows "input (skipLineComment s) = input s" "position s < position (skipLineComment s)"
    "position (skipLineComment s) \<le> length (input s)"
  using assms position_advance_while_strict [of s "\<lambda>c. c \<noteq> CHR 0x0A"]
    position_advance_while_bound [of s "\<lambda>c. c \<noteq> CHR 0x0A"]
  by (simp_all add: skipLineComment_def)

lemma skipBlockComment_props:
  assumes "peek s = Some c"
  shows "input (skipBlockComment s) = input s" "position s < position (skipBlockComment s)"
    "position (skipBlockComment s) \<le> length (input s)"
  using peek_Some_bound [OF assms] position_block_comment_loop [of "advance (advance s)"]
    position_block_comment_loop_bound [of "advance (advance s)"]
  by (simp_all add: skipBlockComment_def)

lemma lex_step_props:
  assumes "lex_step h s = Inr (seg, s')" "position s < length (input s)"
  shows "input s' = input s" "position s < position s'" "position s' \<le> length (input s)"
  using assms
  by (auto simp: lex_step_def Let_def
      split: if_splits prod.splits sum.splits option.splits
      dest: readIdentifierOrKeyword_props readNumber_props readString_props readOperator_props
        skipLineComment_props skipBlockComment_props)

text \<open>
  \<^verbatim>\<open>tokenize\<close>: the loop, which also records the segments, and then the \<open>EOF\<close> token.
\<close>

function tokenize_loop ::
    "('n, 'm) host_scheme \<Rightarrow> lexer \<Rightarrow> 'n segment list \<Rightarrow> lex_error + ('n segment list \<times> lexer)" where
  "tokenize_loop h s segs =
     (if position s < length (input s) then
        (if length (input (skipWhitespace s)) \<le> position (skipWhitespace s)
         then Inr (segs @ [Skipped Whitespace (position s) (position (skipWhitespace s))],
                   skipWhitespace s)
         else
           (case lex_step h (skipWhitespace s) of
              Inl e \<Rightarrow> Inl e
            | Inr (seg, s') \<Rightarrow>
                tokenize_loop h s'
                  (segs @ [Skipped Whitespace (position s) (position (skipWhitespace s)), seg])))
      else Inr (segs, s))"
  by pat_completeness auto
termination
proof (relation "measure (\<lambda>(h, s, segs). length (input s) - position s)", goal_cases)
  case 1
  show ?case by simp
next
  case (2 h s segs x2 seg s')
  then have "lex_step h (skipWhitespace s) = Inr (seg, s')" by simp
  from lex_step_props(1,2) [OF this] 2(2) position_advance_while [of s isSpace] 2(1)
  show ?case by (simp add: skipWhitespace_def)
qed

declare tokenize_loop.simps [simp del]

definition tokens_of :: "'n segment list \<Rightarrow> 'n token list" where
  "tokens_of segs = concat (map (\<lambda>seg. case seg of Lexed t a b \<Rightarrow> [t] | Skipped k a b \<Rightarrow> []) segs)"

definition Lexer :: "string \<Rightarrow> lexer" where
  "Lexer inp = \<lparr>input = inp, position = 0, line = 1, column = 1\<rparr>"

definition tokenize_trace :: "('n, 'm) host_scheme \<Rightarrow> string \<Rightarrow> lex_error + ('n segment list \<times> lexer)" where
  "tokenize_trace h inp = tokenize_loop h (Lexer inp) []"

definition tokenize :: "('n, 'm) host_scheme \<Rightarrow> string \<Rightarrow> lex_error + 'n token list" where
  "tokenize h inp =
     (case tokenize_trace h inp of
        Inl e \<Rightarrow> Inl e
      | Inr (segs, s) \<Rightarrow>
          Inr (tokens_of segs
               @ [\<lparr>ttype = ''EOF'', tvalue = Null, tline = line s, tcolumn = column s\<rparr>]))"



section \<open>The syntax tree and the parser\<close>

text \<open>
  \<^verbatim>\<open>new ASTNode(type, attributes)\<close>: one constructor for each node type the parser
  builds, with the attributes in the order the parser names them. The methods and
  properties of a class are the attributes of function and variable declarations.
\<close>

datatype 'n node =
    Program "'n node list"
  | VariableDeclaration string string "'n node option"
  | FunctionDeclaration string "string list" "'n node list"
  | ClassDeclaration string "string option"
      "(string \<times> string list \<times> 'n node list) list"
      "(string \<times> string \<times> 'n node option) list"
  | ImportStatement "(string \<times> string) list" string
  | TryStatement "'n node list" "(string option \<times> 'n node list) option" "'n node list option"
  | IfStatement "'n node" "'n node list" "('n node \<times> 'n node list) list" "'n node list option"
  | WhileStatement "'n node" "'n node list"
  | ForStatement string "'n node" "'n node" "'n node" "'n node list"
  | ReturnStatement "'n node option"
  | Break
  | Continue
  | ExpressionStatement "'n node"
  | Assignment "'n node" string "'n node"
  | BinaryExpression "'n node" string "'n node"
  | UnaryExpression string "'n node"
  | CallExpression "'n node" "'n node list"
  | IndexExpression "'n node" "'n node"
  | MemberExpression "'n node" string
  | Identifier string
  | Literal "'n literal"
  | ArrayLiteral "'n node list"
  | ObjectLiteral "(string \<times> 'n node) list"

text \<open>
  A call either runs out of fuel, throws, or returns. The parser's methods call each
  other recursively; each call of the model takes one unit of fuel, and \<open>OutOfFuel\<close> is
  the answer of a call that was given too little.
\<close>

datatype ('e, 'a) result = OutOfFuel | Failure 'e | Success 'a

definition andThen :: "('e, 'a) result \<Rightarrow> ('a \<Rightarrow> ('e, 'b) result) \<Rightarrow> ('e, 'b) result" where
  "andThen m f = (case m of OutOfFuel \<Rightarrow> OutOfFuel | Failure e \<Rightarrow> Failure e | Success a \<Rightarrow> f a)"

text \<open>
  The errors of the parser: the message of \<^verbatim>\<open>consume\<close> with the line and column of
  the token under the cursor, the message of \<^verbatim>\<open>primary\<close> with that token's type and
  line, and the host's \<^verbatim>\<open>TypeError\<close> when the cursor is past the last token and the
  message reads a field of \<^verbatim>\<open>undefined\<close>.
\<close>

datatype parse_error =
    Expected string nat nat
  | UnexpectedToken string nat
  | TypeError

text \<open>
  The token list never changes, so the methods take it as an argument and pass the
  position along. The lexer gives every token but numbers and \<open>EOF\<close> a string value.
\<close>

definition token_text :: "'n token \<Rightarrow> string" where
  "token_text t = (case tvalue t of Str s \<Rightarrow> s | _ \<Rightarrow> [])"

definition isAtEnd :: "'n token list \<Rightarrow> nat \<Rightarrow> bool" where
  "isAtEnd ts p = (length ts \<le> p)"

definition check :: "'n token list \<Rightarrow> string \<Rightarrow> nat \<Rightarrow> bool" where
  "check ts ty p = (if isAtEnd ts p then False else ttype (ts ! p) = ty)"

text \<open>
  \<^verbatim>\<open>match(...types)\<close> advances over a token of one of the types. \<open>match\<close> gives the new
  position; \<open>match_token\<close> also gives the token passed, which is what \<^verbatim>\<open>previous()\<close>
  returns right after.
\<close>

definition match :: "'n token list \<Rightarrow> string list \<Rightarrow> nat \<Rightarrow> nat option" where
  "match ts tys p = (if \<exists>ty \<in> set tys. check ts ty p then Some (p + 1) else None)"

definition match_token :: "'n token list \<Rightarrow> string list \<Rightarrow> nat \<Rightarrow> ('n token \<times> nat) option" where
  "match_token ts tys p = (if \<exists>ty \<in> set tys. check ts ty p then Some (ts ! p, p + 1) else None)"

definition previous :: "'n token list \<Rightarrow> nat \<Rightarrow> 'n token option" where
  "previous ts p = (if 0 < p \<and> p - 1 < length ts then Some (ts ! (p - 1)) else None)"

definition consume ::
    "'n token list \<Rightarrow> string \<Rightarrow> string \<Rightarrow> nat \<Rightarrow> (parse_error, 'n token \<times> nat) result" where
  "consume ts ty message p =
     (if check ts ty p then Success (ts ! p, p + 1)
      else if p < length ts then Failure (Expected message (tline (ts ! p)) (tcolumn (ts ! p)))
      else Failure TypeError)"

definition consumeOptional :: "'n token list \<Rightarrow> string \<Rightarrow> nat \<Rightarrow> nat" where
  "consumeOptional ts ty p = (if check ts ty p then p + 1 else p)"

text \<open>
  \<^verbatim>\<open>do { parameters.push(this.consume('IDENTIFIER', ...).value) } while (this.match('COMMA'))\<close>
\<close>

function parameter_loop ::
    "'n token list \<Rightarrow> nat \<Rightarrow> string list \<Rightarrow> (parse_error, string list \<times> nat) result" where
  "parameter_loop ts p parameters =
     (if check ts ''IDENTIFIER'' p then
        (if check ts ''COMMA'' (p + 1)
         then parameter_loop ts (p + 2) (parameters @ [token_text (ts ! p)])
         else Success (parameters @ [token_text (ts ! p)], p + 1))
      else if p < length ts
      then Failure (Expected ''Expected parameter name'' (tline (ts ! p)) (tcolumn (ts ! p)))
      else Failure TypeError)"
  by pat_completeness auto
termination
  by (relation "measure (\<lambda>(ts, p, ps). length ts - p)")
     (auto simp: check_def isAtEnd_def split: if_splits)

declare parameter_loop.simps [simp del]

text \<open>The loop over the specifiers of \<^verbatim>\<open>import { a as b, c } from "m"\<close>.\<close>

function specifier_loop ::
    "'n token list \<Rightarrow> nat \<Rightarrow> (string \<times> string) list
      \<Rightarrow> (parse_error, (string \<times> string) list \<times> nat) result" where
  "specifier_loop ts p specifiers =
     (case consume ts ''IDENTIFIER'' ''Expected import specifier'' p of
        OutOfFuel \<Rightarrow> OutOfFuel
      | Failure e \<Rightarrow> Failure e
      | Success (name, p1) \<Rightarrow>
          (case (if check ts ''AS'' p1
                 then andThen (consume ts ''IDENTIFIER'' ''Expected alias'' (p1 + 1))
                        (\<lambda>(alias, p2). Success (token_text alias, p2))
                 else Success (token_text name, p1)) of
             OutOfFuel \<Rightarrow> OutOfFuel
           | Failure e \<Rightarrow> Failure e
           | Success (alias, p2) \<Rightarrow>
               (if check ts ''COMMA'' p2
                then specifier_loop ts (p2 + 1) (specifiers @ [(token_text name, alias)])
                else Success (specifiers @ [(token_text name, alias)], p2))))"
  by pat_completeness auto
termination
  by (relation "measure (\<lambda>(ts, p, ss). length ts - p)")
     (auto simp: consume_def check_def isAtEnd_def andThen_def
           split: if_splits result.splits prod.splits)

declare specifier_loop.simps [simp del]

definition importStatement ::
    "'n token list \<Rightarrow> nat \<Rightarrow> (parse_error, 'n node \<times> nat) result" where
  "importStatement ts p =
     andThen
       (if check ts ''LBRACE'' p then
          andThen (specifier_loop ts (p + 1) [])
            (\<lambda>(specifiers, p1).
               andThen (consume ts ''RBRACE'' ''Expected }'' p1)
                 (\<lambda>(t, p2). Success (specifiers, p2)))
        else if check ts ''MULT'' p then
          andThen (consume ts ''AS'' ''Expected as after *'' (p + 1))
            (\<lambda>(t, p1).
               andThen (consume ts ''IDENTIFIER'' ''Expected alias'' p1)
                 (\<lambda>(alias, p2). Success ([(''*'', token_text alias)], p2)))
        else
          andThen (consume ts ''IDENTIFIER'' ''Expected import name'' p)
            (\<lambda>(name, p1). Success ([(token_text name, token_text name)], p1)))
       (\<lambda>(specifiers, p3).
          andThen (consume ts ''FROM'' ''Expected from'' p3)
            (\<lambda>(t, p4).
               andThen (consume ts ''STRING'' ''Expected module path'' p4)
                 (\<lambda>(source, p5).
                    Success (ImportStatement specifiers (token_text source),
                             consumeOptional ts ''SEMICOLON'' p5))))"

text \<open>
  The recursive methods. Each takes fuel \<open>n\<close> for the loops and calls it makes; a call
  given too little answers \<open>OutOfFuel\<close>. The methods of the expression grammar reach
  \<^verbatim>\<open>this.expression()\<close> again from inside parentheses, brackets, braces and argument
  lists: they take it as the argument \<open>E\<close>, and \<open>expression\<close> below passes itself, with
  less fuel. In the same way the methods that parse a block take \<^verbatim>\<open>this.statement()\<close>
  as the argument \<open>S\<close>, and \<open>statement\<close> passes itself.

  \<open>expression_list\<close> is the \<^verbatim>\<open>do ... while (this.match('COMMA'))\<close> loop over call
  arguments and over array elements (the same text twice); \<open>property_loop\<close>, \<open>postfix_loop\<close>,
  the \<open>_loop\<close> of each binary level, \<open>block_loop\<close>, \<open>elif_loop\<close>, \<open>class_loop\<close> and
  \<open>parse_loop\<close> are the other loops.
\<close>

type_synonym 'n parsed = "(parse_error, 'n node \<times> nat) result"

primrec expression_list :: "nat \<Rightarrow> (nat \<Rightarrow> 'n parsed) \<Rightarrow> 'n token list \<Rightarrow> nat \<Rightarrow> 'n node list
    \<Rightarrow> (parse_error, 'n node list \<times> nat) result" where
  "expression_list 0 E ts p elements = OutOfFuel"
| "expression_list (Suc n) E ts p elements =
     andThen (E p)
       (\<lambda>(e, p1).
          if check ts ''COMMA'' p1 then expression_list n E ts (p1 + 1) (elements @ [e])
          else Success (elements @ [e], p1))"

primrec property_loop :: "nat \<Rightarrow> (nat \<Rightarrow> 'n parsed) \<Rightarrow> 'n token list \<Rightarrow> nat
    \<Rightarrow> (string \<times> 'n node) list \<Rightarrow> (parse_error, (string \<times> 'n node) list \<times> nat) result" where
  "property_loop 0 E ts p properties = OutOfFuel"
| "property_loop (Suc n) E ts p properties =
     andThen (consume ts ''IDENTIFIER'' ''Expected property name'' p)
       (\<lambda>(key, p1).
     andThen (consume ts ''COLON'' ''Expected :'' p1)
       (\<lambda>(t, p2).
     andThen (E p2)
       (\<lambda>(v, p3).
          if check ts ''COMMA'' p3
          then property_loop n E ts (p3 + 1) (properties @ [(token_text key, v)])
          else Success (properties @ [(token_text key, v)], p3))))"

definition primary :: "nat \<Rightarrow> (nat \<Rightarrow> 'n parsed) \<Rightarrow> 'n token list \<Rightarrow> nat \<Rightarrow> 'n parsed" where
  "primary n E ts p =
     (if check ts ''TRUE'' p then Success (Literal (Bool True), p + 1)
      else if check ts ''FALSE'' p then Success (Literal (Bool False), p + 1)
      else if check ts ''NULL'' p \<or> check ts ''NIL'' p then Success (Literal Null, p + 1)
      else if check ts ''NUMBER'' p then Success (Literal (tvalue (ts ! p)), p + 1)
      else if check ts ''STRING'' p then Success (Literal (tvalue (ts ! p)), p + 1)
      else if check ts ''IDENTIFIER'' p then Success (Identifier (token_text (ts ! p)), p + 1)
      else if check ts ''LPAREN'' p then
        andThen (E (p + 1))
          (\<lambda>(expr, p1).
             andThen (consume ts ''RPAREN'' ''Expected ) after expression'' p1)
               (\<lambda>(t, p2). Success (expr, p2)))
      else if check ts ''LBRACKET'' p then
        andThen (if \<not> check ts ''RBRACKET'' (p + 1) then expression_list n E ts (p + 1) []
                 else Success ([], p + 1))
          (\<lambda>(elements, p1).
             andThen (consume ts ''RBRACKET'' ''Expected ]'' p1)
               (\<lambda>(t, p2). Success (ArrayLiteral elements, p2)))
      else if check ts ''LBRACE'' p then
        andThen (if \<not> check ts ''RBRACE'' (p + 1) then property_loop n E ts (p + 1) []
                 else Success ([], p + 1))
          (\<lambda>(properties, p1).
             andThen (consume ts ''RBRACE'' ''Expected }'' p1)
               (\<lambda>(t, p2). Success (ObjectLiteral properties, p2)))
      else if p < length ts then Failure (UnexpectedToken (ttype (ts ! p)) (tline (ts ! p)))
      else Failure TypeError)"

primrec postfix_loop :: "nat \<Rightarrow> (nat \<Rightarrow> 'n parsed) \<Rightarrow> 'n token list \<Rightarrow> 'n node \<Rightarrow> nat
    \<Rightarrow> 'n parsed" where
  "postfix_loop 0 E ts expr p = OutOfFuel"
| "postfix_loop (Suc n) E ts expr p =
     (if check ts ''LPAREN'' p then
        andThen (if \<not> check ts ''RPAREN'' (p + 1) then expression_list n E ts (p + 1) []
                 else Success ([], p + 1))
          (\<lambda>(args, p1).
        andThen (consume ts ''RPAREN'' ''Expected ) after arguments'' p1)
          (\<lambda>(t, p2). postfix_loop n E ts (CallExpression expr args) p2))
      else if check ts ''LBRACKET'' p then
        andThen (E (p + 1))
          (\<lambda>(index, p1).
        andThen (consume ts ''RBRACKET'' ''Expected ]'' p1)
          (\<lambda>(t, p2). postfix_loop n E ts (IndexExpression expr index) p2))
      else if check ts ''DOT'' p then
        andThen (consume ts ''IDENTIFIER'' ''Expected property name'' (p + 1))
          (\<lambda>(property, p1).
             postfix_loop n E ts (MemberExpression expr (token_text property)) p1)
      else Success (expr, p))"

definition postfix :: "nat \<Rightarrow> (nat \<Rightarrow> 'n parsed) \<Rightarrow> 'n token list \<Rightarrow> nat \<Rightarrow> 'n parsed" where
  "postfix n E ts p = andThen (primary n E ts p) (\<lambda>(expr, p1). postfix_loop n E ts expr p1)"

primrec unary :: "nat \<Rightarrow> (nat \<Rightarrow> 'n parsed) \<Rightarrow> 'n token list \<Rightarrow> nat \<Rightarrow> 'n parsed" where
  "unary 0 E ts p = OutOfFuel"
| "unary (Suc n) E ts p =
     (case match_token ts [''NOT'', ''MINUS'', ''PLUS''] p of
        Some (operator, p1) \<Rightarrow>
          andThen (unary n E ts p1)
            (\<lambda>(operand, p2). Success (UnaryExpression (token_text operator) operand, p2))
      | None \<Rightarrow> postfix n E ts p)"

primrec factor_loop :: "nat \<Rightarrow> (nat \<Rightarrow> 'n parsed) \<Rightarrow> 'n token list \<Rightarrow> 'n node \<Rightarrow> nat
    \<Rightarrow> 'n parsed" where
  "factor_loop 0 E ts expr p = OutOfFuel"
| "factor_loop (Suc n) E ts expr p =
     (case match_token ts [''MULT'', ''DIV'', ''MOD''] p of
        Some (operator, p1) \<Rightarrow>
          andThen (unary n E ts p1)
            (\<lambda>(right, p2).
               factor_loop n E ts (BinaryExpression expr (token_text operator) right) p2)
      | None \<Rightarrow> Success (expr, p))"

definition factor :: "nat \<Rightarrow> (nat \<Rightarrow> 'n parsed) \<Rightarrow> 'n token list \<Rightarrow> nat \<Rightarrow> 'n parsed" where
  "factor n E ts p = andThen (unary n E ts p) (\<lambda>(expr, p1). factor_loop n E ts expr p1)"

primrec termExpr_loop :: "nat \<Rightarrow> (nat \<Rightarrow> 'n parsed) \<Rightarrow> 'n token list \<Rightarrow> 'n node \<Rightarrow> nat
    \<Rightarrow> 'n parsed" where
  "termExpr_loop 0 E ts expr p = OutOfFuel"
| "termExpr_loop (Suc n) E ts expr p =
     (case match_token ts [''PLUS'', ''MINUS''] p of
        Some (operator, p1) \<Rightarrow>
          andThen (factor n E ts p1)
            (\<lambda>(right, p2).
               termExpr_loop n E ts (BinaryExpression expr (token_text operator) right) p2)
      | None \<Rightarrow> Success (expr, p))"

definition termExpr :: "nat \<Rightarrow> (nat \<Rightarrow> 'n parsed) \<Rightarrow> 'n token list \<Rightarrow> nat \<Rightarrow> 'n parsed" where
  "termExpr n E ts p = andThen (factor n E ts p) (\<lambda>(expr, p1). termExpr_loop n E ts expr p1)"

primrec comparison_loop :: "nat \<Rightarrow> (nat \<Rightarrow> 'n parsed) \<Rightarrow> 'n token list \<Rightarrow> 'n node \<Rightarrow> nat
    \<Rightarrow> 'n parsed" where
  "comparison_loop 0 E ts expr p = OutOfFuel"
| "comparison_loop (Suc n) E ts expr p =
     (case match_token ts [''GT'', ''GTE'', ''LT'', ''LTE''] p of
        Some (operator, p1) \<Rightarrow>
          andThen (termExpr n E ts p1)
            (\<lambda>(right, p2).
               comparison_loop n E ts (BinaryExpression expr (token_text operator) right) p2)
      | None \<Rightarrow> Success (expr, p))"

definition comparison :: "nat \<Rightarrow> (nat \<Rightarrow> 'n parsed) \<Rightarrow> 'n token list \<Rightarrow> nat \<Rightarrow> 'n parsed" where
  "comparison n E ts p = andThen (termExpr n E ts p) (\<lambda>(expr, p1). comparison_loop n E ts expr p1)"

primrec equality_loop :: "nat \<Rightarrow> (nat \<Rightarrow> 'n parsed) \<Rightarrow> 'n token list \<Rightarrow> 'n node \<Rightarrow> nat
    \<Rightarrow> 'n parsed" where
  "equality_loop 0 E ts expr p = OutOfFuel"
| "equality_loop (Suc n) E ts expr p =
     (case match_token ts [''EQ'', ''NEQ''] p of
        Some (operator, p1) \<Rightarrow>
          andThen (comparison n E ts p1)
            (\<lambda>(right, p2).
               equality_loop n E ts (BinaryExpression expr (token_text operator) right) p2)
      | None \<Rightarrow> Success (expr, p))"

definition equality :: "nat \<Rightarrow> (nat \<Rightarrow> 'n parsed) \<Rightarrow> 'n token list \<Rightarrow> nat \<Rightarrow> 'n parsed" where
  "equality n E ts p = andThen (comparison n E ts p) (\<lambda>(expr, p1). equality_loop n E ts expr p1)"

primrec logicalAnd_loop :: "nat \<Rightarrow> (nat \<Rightarrow> 'n parsed) \<Rightarrow> 'n token list \<Rightarrow> 'n node \<Rightarrow> nat
    \<Rightarrow> 'n parsed" where
  "logicalAnd_loop 0 E ts expr p = OutOfFuel"
| "logicalAnd_loop (Suc n) E ts expr p =
     (case match_token ts [''AND''] p of
        Some (operator, p1) \<Rightarrow>
          andThen (equality n E ts p1)
            (\<lambda>(right, p2).
               logicalAnd_loop n E ts (BinaryExpression expr (token_text operator) right) p2)
      | None \<Rightarrow> Success (expr, p))"

definition logicalAnd :: "nat \<Rightarrow> (nat \<Rightarrow> 'n parsed) \<Rightarrow> 'n token list \<Rightarrow> nat \<Rightarrow> 'n parsed" where
  "logicalAnd n E ts p = andThen (equality n E ts p) (\<lambda>(expr, p1). logicalAnd_loop n E ts expr p1)"

primrec logicalOr_loop :: "nat \<Rightarrow> (nat \<Rightarrow> 'n parsed) \<Rightarrow> 'n token list \<Rightarrow> 'n node \<Rightarrow> nat
    \<Rightarrow> 'n parsed" where
  "logicalOr_loop 0 E ts expr p = OutOfFuel"
| "logicalOr_loop (Suc n) E ts expr p =
     (case match_token ts [''OR''] p of
        Some (operator, p1) \<Rightarrow>
          andThen (logicalAnd n E ts p1)
            (\<lambda>(right, p2).
               logicalOr_loop n E ts (BinaryExpression expr (token_text operator) right) p2)
      | None \<Rightarrow> Success (expr, p))"

definition logicalOr :: "nat \<Rightarrow> (nat \<Rightarrow> 'n parsed) \<Rightarrow> 'n token list \<Rightarrow> nat \<Rightarrow> 'n parsed" where
  "logicalOr n E ts p = andThen (logicalAnd n E ts p) (\<lambda>(expr, p1). logicalOr_loop n E ts expr p1)"

primrec assignment :: "nat \<Rightarrow> (nat \<Rightarrow> 'n parsed) \<Rightarrow> 'n token list \<Rightarrow> nat \<Rightarrow> 'n parsed" where
  "assignment 0 E ts p = OutOfFuel"
| "assignment (Suc n) E ts p =
     andThen (logicalOr n E ts p)
       (\<lambda>(expr, p1).
          case match_token ts [''ASSIGN'', ''PLUS_ASSIGN'', ''MINUS_ASSIGN'', ''MULT_ASSIGN'',
                               ''DIV_ASSIGN''] p1 of
            Some (operator, p2) \<Rightarrow>
              andThen (assignment n E ts p2)
                (\<lambda>(v, p3). Success (Assignment expr (token_text operator) v, p3))
          | None \<Rightarrow> Success (expr, p1))"

primrec expression :: "nat \<Rightarrow> 'n token list \<Rightarrow> nat \<Rightarrow> 'n parsed" where
  "expression 0 ts p = OutOfFuel"
| "expression (Suc n) ts p = assignment n (expression n ts) ts p"

text \<open>
  \<^verbatim>\<open>variableDeclaration\<close> and \<^verbatim>\<open>functionDeclaration\<close> give the attributes of their node;
  \<open>statement\<close> wraps them, and \<open>class_loop\<close> collects them as they are.
\<close>

definition variableDeclaration :: "nat \<Rightarrow> 'n token list \<Rightarrow> nat
    \<Rightarrow> (parse_error, (string \<times> string \<times> 'n node option) \<times> nat) result" where
  "variableDeclaration n ts p =
     (case previous ts p of
        None \<Rightarrow> Failure TypeError
      | Some keyword \<Rightarrow>
          andThen (consume ts ''IDENTIFIER'' ''Expected variable name'' p)
            (\<lambda>(name, p1).
               if check ts ''ASSIGN'' p1 then
                 andThen (expression n ts (p1 + 1))
                   (\<lambda>(initializer, p2).
                      Success ((token_text keyword, token_text name, Some initializer),
                               consumeOptional ts ''SEMICOLON'' p2))
               else Success ((token_text keyword, token_text name, None),
                             consumeOptional ts ''SEMICOLON'' p1)))"

primrec block_loop :: "nat \<Rightarrow> (nat \<Rightarrow> 'n parsed) \<Rightarrow> 'n token list \<Rightarrow> nat \<Rightarrow> 'n node list
    \<Rightarrow> (parse_error, 'n node list \<times> nat) result" where
  "block_loop 0 S ts p statements = OutOfFuel"
| "block_loop (Suc n) S ts p statements =
     (if \<not> check ts ''RBRACE'' p \<and> \<not> isAtEnd ts p then
        andThen (S p) (\<lambda>(s, p1). block_loop n S ts p1 (statements @ [s]))
      else Success (statements, p))"

definition block :: "nat \<Rightarrow> (nat \<Rightarrow> 'n parsed) \<Rightarrow> 'n token list \<Rightarrow> nat
    \<Rightarrow> (parse_error, 'n node list \<times> nat) result" where
  "block n S ts p =
     andThen (block_loop n S ts p [])
       (\<lambda>(statements, p1).
          andThen (consume ts ''RBRACE'' ''Expected } after block'' p1)
            (\<lambda>(t, p2). Success (statements, p2)))"

definition functionDeclaration :: "nat \<Rightarrow> (nat \<Rightarrow> 'n parsed) \<Rightarrow> 'n token list \<Rightarrow> nat
    \<Rightarrow> (parse_error, (string \<times> string list \<times> 'n node list) \<times> nat) result" where
  "functionDeclaration n S ts p =
     andThen (consume ts ''IDENTIFIER'' ''Expected function name'' p)
       (\<lambda>(name, p1).
     andThen (consume ts ''LPAREN'' ''Expected ( after function name'' p1)
       (\<lambda>(t, p2).
     andThen (if \<not> check ts ''RPAREN'' p2 then parameter_loop ts p2 [] else Success ([], p2))
       (\<lambda>(parameters, p3).
     andThen (consume ts ''RPAREN'' ''Expected ) after parameters'' p3)
       (\<lambda>(t, p4).
     andThen (consume ts ''LBRACE'' ''Expected { before function body'' p4)
       (\<lambda>(t, p5).
     andThen (block n S ts p5)
       (\<lambda>(body, p6). Success ((token_text name, parameters, body), p6)))))))"

primrec class_loop :: "nat \<Rightarrow> (nat \<Rightarrow> 'n parsed) \<Rightarrow> 'n token list \<Rightarrow> nat
    \<Rightarrow> (string \<times> string list \<times> 'n node list) list
    \<Rightarrow> (string \<times> string \<times> 'n node option) list
    \<Rightarrow> (parse_error, ((string \<times> string list \<times> 'n node list) list
          \<times> (string \<times> string \<times> 'n node option) list) \<times> nat) result" where
  "class_loop 0 S ts p methods properties = OutOfFuel"
| "class_loop (Suc n) S ts p methods properties =
     (if \<not> check ts ''RBRACE'' p \<and> \<not> isAtEnd ts p then
        (if check ts ''DEF'' p \<or> check ts ''FUNCTION'' p then
           andThen (functionDeclaration n S ts (p + 1))
             (\<lambda>(method, p'). class_loop n S ts p' (methods @ [method]) properties)
         else if check ts ''LET'' p \<or> check ts ''CONST'' p \<or> check ts ''VAR'' p then
           andThen (variableDeclaration n ts (p + 1))
             (\<lambda>(property, p'). class_loop n S ts p' methods (properties @ [property]))
         else class_loop n S ts (p + 1) methods properties)
      else Success ((methods, properties), p))"

definition classDeclaration :: "nat \<Rightarrow> (nat \<Rightarrow> 'n parsed) \<Rightarrow> 'n token list \<Rightarrow> nat
    \<Rightarrow> 'n parsed" where
  "classDeclaration n S ts p =
     andThen (consume ts ''IDENTIFIER'' ''Expected class name'' p)
       (\<lambda>(name, p1).
     andThen (if check ts ''LT'' p1
              then andThen (consume ts ''IDENTIFIER'' ''Expected superclass name'' (p1 + 1))
                     (\<lambda>(superclass, p2). Success (Some (token_text superclass), p2))
              else Success (None, p1))
       (\<lambda>(superclass, p2).
     andThen (consume ts ''LBRACE'' ''Expected { before class body'' p2)
       (\<lambda>(t, p3).
     andThen (class_loop n S ts p3 [] [])
       (\<lambda>((methods, properties), p4).
     andThen (consume ts ''RBRACE'' ''Expected } after class body'' p4)
       (\<lambda>(t, p5).
          Success (ClassDeclaration (token_text name) superclass methods properties, p5))))))"

definition tryStatement :: "nat \<Rightarrow> (nat \<Rightarrow> 'n parsed) \<Rightarrow> 'n token list \<Rightarrow> nat
    \<Rightarrow> 'n parsed" where
  "tryStatement n S ts p =
     andThen (consume ts ''LBRACE'' ''Expected { after try'' p)
       (\<lambda>(t, p1).
     andThen (block n S ts p1)
       (\<lambda>(tryBlock, p2).
     andThen (if check ts ''CATCH'' p2 then
                andThen (if check ts ''LPAREN'' (p2 + 1)
                         then andThen (consume ts ''IDENTIFIER'' ''Expected parameter name'' (p2 + 2))
                                (\<lambda>(parameter, p3).
                                   andThen (consume ts ''RPAREN'' ''Expected )'' p3)
                                     (\<lambda>(t, p4). Success (Some (token_text parameter), p4)))
                         else Success (None, p2 + 1))
                  (\<lambda>(parameter, p4).
                andThen (consume ts ''LBRACE'' ''Expected {'' p4)
                  (\<lambda>(t, p5).
                andThen (block n S ts p5)
                  (\<lambda>(catchBlock, p6). Success (Some (parameter, catchBlock), p6))))
              else Success (None, p2))
       (\<lambda>(catchClause, p6).
     andThen (if check ts ''FINALLY'' p6 then
                andThen (consume ts ''LBRACE'' ''Expected {'' (p6 + 1))
                  (\<lambda>(t, p7).
                andThen (block n S ts p7)
                  (\<lambda>(finallyBlock, p8). Success (Some finallyBlock, p8)))
              else Success (None, p6))
       (\<lambda>(finallyBlock, p8).
          Success (TryStatement tryBlock catchClause finallyBlock, p8)))))"

primrec elif_loop :: "nat \<Rightarrow> (nat \<Rightarrow> 'n parsed) \<Rightarrow> 'n token list \<Rightarrow> nat
    \<Rightarrow> ('n node \<times> 'n node list) list
    \<Rightarrow> (parse_error, ('n node \<times> 'n node list) list \<times> nat) result" where
  "elif_loop 0 S ts p elifBranches = OutOfFuel"
| "elif_loop (Suc n) S ts p elifBranches =
     (if check ts ''ELSIF'' p \<or> check ts ''ELIF'' p then
        andThen (consume ts ''LPAREN'' ''Expected ('' (p + 1))
          (\<lambda>(t, p1).
        andThen (expression n ts p1)
          (\<lambda>(elifCondition, p2).
        andThen (consume ts ''RPAREN'' ''Expected )'' p2)
          (\<lambda>(t, p3).
        andThen (consume ts ''LBRACE'' ''Expected {'' p3)
          (\<lambda>(t, p4).
        andThen (block n S ts p4)
          (\<lambda>(elifBody, p5).
             elif_loop n S ts p5 (elifBranches @ [(elifCondition, elifBody)]))))))
      else Success (elifBranches, p))"

definition ifStatement :: "nat \<Rightarrow> (nat \<Rightarrow> 'n parsed) \<Rightarrow> 'n token list \<Rightarrow> nat
    \<Rightarrow> 'n parsed" where
  "ifStatement n S ts p =
     andThen (consume ts ''LPAREN'' ''Expected ( after if'' p)
       (\<lambda>(t, p1).
     andThen (expression n ts p1)
       (\<lambda>(condition, p2).
     andThen (consume ts ''RPAREN'' ''Expected ) after condition'' p2)
       (\<lambda>(t, p3).
     andThen (consume ts ''LBRACE'' ''Expected { after condition'' p3)
       (\<lambda>(t, p4).
     andThen (block n S ts p4)
       (\<lambda>(thenBranch, p5).
     andThen (elif_loop n S ts p5 [])
       (\<lambda>(elifBranches, p6).
     andThen (if check ts ''ELSE'' p6 then
                andThen (consume ts ''LBRACE'' ''Expected {'' (p6 + 1))
                  (\<lambda>(t, p7).
                andThen (block n S ts p7)
                  (\<lambda>(elseBranch, p8). Success (Some elseBranch, p8)))
              else Success (None, p6))
       (\<lambda>(elseBranch, p8).
          Success (IfStatement condition thenBranch elifBranches elseBranch, p8))))))))"

definition whileStatement :: "nat \<Rightarrow> (nat \<Rightarrow> 'n parsed) \<Rightarrow> 'n token list \<Rightarrow> nat
    \<Rightarrow> 'n parsed" where
  "whileStatement n S ts p =
     andThen (consume ts ''LPAREN'' ''Expected ( after while'' p)
       (\<lambda>(t, p1).
     andThen (expression n ts p1)
       (\<lambda>(condition, p2).
     andThen (consume ts ''RPAREN'' ''Expected ) after condition'' p2)
       (\<lambda>(t, p3).
     andThen (consume ts ''LBRACE'' ''Expected { after condition'' p3)
       (\<lambda>(t, p4).
     andThen (block n S ts p4)
       (\<lambda>(body, p5). Success (WhileStatement condition body, p5))))))"

text \<open>
  \<^verbatim>\<open>if (this.match('IDENTIFIER') && this.previous().value === 'step')\<close>: the match
  advances over any identifier before its text is compared.
\<close>

definition forStatement :: "nat \<Rightarrow> ('n, 'm) host_scheme \<Rightarrow> (nat \<Rightarrow> 'n parsed) \<Rightarrow> 'n token list \<Rightarrow> nat
    \<Rightarrow> 'n parsed" where
  "forStatement n h S ts p =
     andThen (consume ts ''IDENTIFIER'' ''Expected iterator variable'' p)
       (\<lambda>(iterator, p1).
     andThen (consume ts ''ASSIGN'' ''Expected ='' p1)
       (\<lambda>(t, p2).
     andThen (expression n ts p2)
       (\<lambda>(start, p3).
     andThen (consume ts ''TO'' ''Expected to'' p3)
       (\<lambda>(t, p4).
     andThen (expression n ts p4)
       (\<lambda>(end, p5).
     andThen (case match_token ts [''IDENTIFIER''] p5 of
                Some (prev, p6) \<Rightarrow>
                  (if token_text prev = ''step'' then expression n ts p6
                   else Success (Literal (Num (num_of_int h 1)), p6))
              | None \<Rightarrow> Success (Literal (Num (num_of_int h 1)), p5))
       (\<lambda>(step, p7).
     andThen (consume ts ''LBRACE'' ''Expected {'' p7)
       (\<lambda>(t, p8).
     andThen (block n S ts p8)
       (\<lambda>(body, p9).
          Success (ForStatement (token_text iterator) start end step body, p9)))))))))"

definition returnStatement :: "nat \<Rightarrow> 'n token list \<Rightarrow> nat \<Rightarrow> 'n parsed" where
  "returnStatement n ts p =
     (if \<not> check ts ''SEMICOLON'' p \<and> \<not> check ts ''RBRACE'' p then
        andThen (expression n ts p)
          (\<lambda>(v, p1). Success (ReturnStatement (Some v), consumeOptional ts ''SEMICOLON'' p1))
      else Success (ReturnStatement None, consumeOptional ts ''SEMICOLON'' p))"

definition expressionStatement :: "nat \<Rightarrow> 'n token list \<Rightarrow> nat \<Rightarrow> 'n parsed" where
  "expressionStatement n ts p =
     andThen (expression n ts p)
       (\<lambda>(expr, p1). Success (ExpressionStatement expr, consumeOptional ts ''SEMICOLON'' p1))"

primrec statement :: "nat \<Rightarrow> ('n, 'm) host_scheme \<Rightarrow> 'n token list \<Rightarrow> nat \<Rightarrow> 'n parsed" where
  "statement 0 h ts p = OutOfFuel"
| "statement (Suc n) h ts p =
     (if check ts ''LET'' p \<or> check ts ''CONST'' p \<or> check ts ''VAR'' p then
        andThen (variableDeclaration n ts (p + 1))
          (\<lambda>((keyword, name, initializer), p').
             Success (VariableDeclaration keyword name initializer, p'))
      else if check ts ''DEF'' p \<or> check ts ''FUNCTION'' p then
        andThen (functionDeclaration n (statement n h ts) ts (p + 1))
          (\<lambda>((name, parameters, body), p').
             Success (FunctionDeclaration name parameters body, p'))
      else if check ts ''IF'' p then ifStatement n (statement n h ts) ts (p + 1)
      else if check ts ''WHILE'' p then whileStatement n (statement n h ts) ts (p + 1)
      else if check ts ''FOR'' p then forStatement n h (statement n h ts) ts (p + 1)
      else if check ts ''RETURN'' p then returnStatement n ts (p + 1)
      else if check ts ''BREAK'' p then Success (Break, p + 1)
      else if check ts ''CONTINUE'' p then Success (Continue, p + 1)
      else if check ts ''CLASS'' p then classDeclaration n (statement n h ts) ts (p + 1)
      else if check ts ''IMPORT'' p then importStatement ts (p + 1)
      else if check ts ''TRY'' p then tryStatement n (statement n h ts) ts (p + 1)
      else expressionStatement n ts p)"

text \<open>
  \<^verbatim>\<open>parse()\<close>: statements until the cursor is past the last token or on \<open>EOF\<close>.
\<close>

primrec parse_loop :: "nat \<Rightarrow> ('n, 'm) host_scheme \<Rightarrow> 'n token list \<Rightarrow> nat \<Rightarrow> 'n node list
    \<Rightarrow> (parse_error, 'n node) result" where
  "parse_loop 0 h ts p statements = OutOfFuel"
| "parse_loop (Suc n) h ts p statements =
     (if \<not> isAtEnd ts p then
        (if check ts ''EOF'' p then Success (Program statements)
         else andThen (statement n h ts p)
                (\<lambda>(s, p1). parse_loop n h ts p1 (statements @ [s])))
      else Success (Program statements))"

definition parse :: "nat \<Rightarrow> ('n, 'm) host_scheme \<Rightarrow> 'n token list \<Rightarrow> (parse_error, 'n node) result" where
  "parse fuel h ts = parse_loop fuel h ts 0 []"

section \<open>Programs for closed examples\<close>

text \<open>The tokens of \<^verbatim>\<open>for i = 1 to 3 foo { x }\<close>.\<close>

definition for_tokens :: "int token list" where
  "for_tokens =
     [\<lparr>ttype = ''FOR'', tvalue = Str ''for'', tline = 1, tcolumn = 1\<rparr>,
      \<lparr>ttype = ''IDENTIFIER'', tvalue = Str ''i'', tline = 1, tcolumn = 5\<rparr>,
      \<lparr>ttype = ''ASSIGN'', tvalue = Str ''='', tline = 1, tcolumn = 7\<rparr>,
      \<lparr>ttype = ''NUMBER'', tvalue = Num 1, tline = 1, tcolumn = 9\<rparr>,
      \<lparr>ttype = ''TO'', tvalue = Str ''to'', tline = 1, tcolumn = 11\<rparr>,
      \<lparr>ttype = ''NUMBER'', tvalue = Num 3, tline = 1, tcolumn = 14\<rparr>,
      \<lparr>ttype = ''IDENTIFIER'', tvalue = Str ''foo'', tline = 1, tcolumn = 16\<rparr>,
      \<lparr>ttype = ''LBRACE'', tvalue = Str ''{'', tline = 1, tcolumn = 20\<rparr>,
      \<lparr>ttype = ''IDENTIFIER'', tvalue = Str ''x'', tline = 1, tcolumn = 22\<rparr>,
      \<lparr>ttype = ''RBRACE'', tvalue = Str ''}'', tline = 1, tcolumn = 24\<rparr>,
      \<lparr>ttype = ''EOF'', tvalue = Null, tline = 1, tcolumn = 25\<rparr>]"

section \<open>The evaluator\<close>

subsection \<open>Values, objects and the store\<close>

text \<open>
  The messages of the errors the evaluator throws with \<^verbatim>\<open>new Error(...)\<close>, and
  \<open>HostError\<close> for an error the host itself throws, such as the \<^verbatim>\<open>TypeError\<close> of reading
  a property of \<^verbatim>\<open>null\<close>.
\<close>

datatype error =
    UndefinedVariable string
  | InfiniteLoop
  | NotAFunction
  | InvalidAssignmentTarget
  | UnknownBinaryOperator string
  | UnknownUnaryOperator string
  | FailedToLoadModule string
  | HostError string

text \<open>
  A value is a primitive, a reference to an object the evaluator created (a scope, a
  function record, a class record, an array or an object literal), a function or an object
  of the host (a builtin of the runtime, a member of \<^verbatim>\<open>Object.prototype\<close>), or a caught
  exception. What is thrown is one of the three signal classes of the evaluator or an
  error.
\<close>

datatype 'n val =
    NumberV 'n
  | StringV string
  | BooleanV bool
  | NullV
  | UndefinedV
  | Ref nat
  | NativeFunction string
  | NativeObject string
  | ErrorObject "'n thrown"
and 'n thrown =
    BreakException
  | ContinueException
  | ReturnException "'n val"
  | Error error

text \<open>
  How a call ends: it returns, it throws, or it does something the model does not
  follow (\<open>Unmodelled\<close>): the identifier \<^verbatim>\<open>__proto__\<close>, which the host treats as an accessor
  of the scope object, and a call of an object literal that imitates a function record.
  Nothing catches \<open>Unmodelled\<close>.
\<close>

datatype ('n, 'a) completion = Normal 'a | Throw "'n thrown" | Unmodelled

text \<open>
  A plain object has its own properties and a prototype: \<open>Some a\<close> for
  \<^verbatim>\<open>Object.create(a)\<close>, \<open>None\<close> for \<^verbatim>\<open>{}\<close>, whose prototype is \<^verbatim>\<open>Object.prototype\<close>.
  A function record is \<^verbatim>\<open>{ type: 'function', parameters, body, scope }\<close>.
\<close>

datatype 'n obj =
    Object "string \<Rightarrow> 'n val option" "nat option"
  | Array "'n val list"
  | Function "string list" "'n node list" nat

record 'n store =
  heap :: "nat \<Rightarrow> 'n obj option"
  next_ref :: nat

record 'n evaluator =
  store :: "'n store"
  globalScope :: nat
  currentScope :: nat

type_synonym ('n, 'a) answer = "(('n, 'a) completion \<times> 'n evaluator) option"

text \<open>
  The operations of the host on values that the evaluator uses and the model leaves to
  the host: the binary operators \<^verbatim>\<open>+ - * / % == != < <= > >=\<close> and the unary
  \<^verbatim>\<open>-\<close> and \<^verbatim>\<open>+\<close> with their coercions, \<^verbatim>\<open>object[index]\<close> as a read and as a write, the
  call of a host function, \<^verbatim>\<open>require\<close>, and \<^verbatim>\<open>Object.assign\<close> into a scope. They see and
  change the store, never the evaluator's two scope fields.
\<close>

record 'n runtime = "'n host" +
  js_binary :: "string \<Rightarrow> 'n store \<Rightarrow> 'n val \<Rightarrow> 'n val \<Rightarrow> 'n val"
  js_unary :: "string \<Rightarrow> 'n store \<Rightarrow> 'n val \<Rightarrow> 'n val"
  js_get :: "'n store \<Rightarrow> 'n val \<Rightarrow> 'n val \<Rightarrow> 'n thrown + 'n val"
  js_set :: "'n store \<Rightarrow> 'n val \<Rightarrow> 'n val \<Rightarrow> 'n val \<Rightarrow> 'n thrown + 'n store"
  js_call :: "string \<Rightarrow> 'n val list \<Rightarrow> 'n store \<Rightarrow> ('n thrown + 'n val) \<times> 'n store"
  js_require :: "string \<Rightarrow> 'n val option"
  js_assign_all :: "'n store \<Rightarrow> nat \<Rightarrow> 'n val \<Rightarrow> 'n thrown + 'n store"

definition literal_value :: "'n literal \<Rightarrow> 'n val" where
  "literal_value l =
     (case l of Num n \<Rightarrow> NumberV n | Str s \<Rightarrow> StringV s | Bool b \<Rightarrow> BooleanV b | Null \<Rightarrow> NullV)"

text \<open>JavaScript truthiness, as in \<^verbatim>\<open>if (v)\<close>, \<^verbatim>\<open>v && w\<close>, \<^verbatim>\<open>v || w\<close> and \<^verbatim>\<open>!v\<close>.\<close>

definition truthy :: "('n, 'm) host_scheme \<Rightarrow> 'n val \<Rightarrow> bool" where
  "truthy h v =
     (case v of
        NumberV n \<Rightarrow> num_truthy h n
      | StringV s \<Rightarrow> s \<noteq> []
      | BooleanV b \<Rightarrow> b
      | NullV \<Rightarrow> False
      | UndefinedV \<Rightarrow> False
      | _ \<Rightarrow> True)"

text \<open>
  The first continuation step: go on with the value of a call that returned, pass on
  everything else.
\<close>

definition seq :: "('n, 'a) answer \<Rightarrow> ('a \<Rightarrow> 'n evaluator \<Rightarrow> ('n, 'b) answer) \<Rightarrow> ('n, 'b) answer" where
  "seq m f =
     (case m of
        None \<Rightarrow> None
      | Some (Normal a, s) \<Rightarrow> f a s
      | Some (Throw t, s) \<Rightarrow> Some (Throw t, s)
      | Some (Unmodelled, s) \<Rightarrow> Some (Unmodelled, s))"

definition alloc :: "'n obj \<Rightarrow> 'n evaluator \<Rightarrow> nat \<times> 'n evaluator" where
  "alloc ob s =
     (next_ref (store s),
      s\<lparr>store := \<lparr>heap = (heap (store s))(next_ref (store s) \<mapsto> ob),
                   next_ref = Suc (next_ref (store s))\<rparr>\<rparr>)"

text \<open>
  The names every object inherits from \<^verbatim>\<open>Object.prototype\<close>, all of them functions.
  (\<^verbatim>\<open>__proto__\<close>, the accessor, is treated apart.)
\<close>

definition object_prototype_names :: "string list" where
  "object_prototype_names =
     [''constructor'', ''__defineGetter__'', ''__defineSetter__'', ''hasOwnProperty'',
      ''__lookupGetter__'', ''__lookupSetter__'', ''isPrototypeOf'', ''propertyIsEnumerable'',
      ''toString'', ''valueOf'', ''toLocaleString'']"

definition object_prototype :: "string \<Rightarrow> 'n val option" where
  "object_prototype name =
     (if name \<in> set object_prototype_names
      then Some (NativeFunction (''Object.prototype.'' @ name)) else None)"

text \<open>
  \<^verbatim>\<open>name in obj\<close> and \<^verbatim>\<open>obj[name]\<close> for a plain object: the own properties, then the
  prototype chain, then \<^verbatim>\<open>Object.prototype\<close>. \<open>None\<close> when the name is nowhere. A chain is
  never longer than the number of objects allocated, which bounds the walk.
\<close>

primrec lookup_chain :: "nat \<Rightarrow> (nat \<Rightarrow> 'n obj option) \<Rightarrow> nat \<Rightarrow> string \<Rightarrow> 'n val option" where
  "lookup_chain 0 hp a name = None"
| "lookup_chain (Suc k) hp a name =
     (case hp a of
        Some (Object props proto) \<Rightarrow>
          (case props name of
             Some v \<Rightarrow> Some v
           | None \<Rightarrow>
               (case proto of
                  Some parent \<Rightarrow> lookup_chain k hp parent name
                | None \<Rightarrow> object_prototype name))
      | _ \<Rightarrow> None)"

definition lookup :: "'n evaluator \<Rightarrow> nat \<Rightarrow> string \<Rightarrow> 'n val option" where
  "lookup s a name = lookup_chain (next_ref (store s)) (heap (store s)) a name"

text \<open>\<^verbatim>\<open>obj[name]\<close> as a value: \<^verbatim>\<open>undefined\<close> when the name is nowhere.\<close>

definition get_property :: "'n evaluator \<Rightarrow> nat \<Rightarrow> string \<Rightarrow> 'n val" where
  "get_property s a name = (case lookup s a name of Some v \<Rightarrow> v | None \<Rightarrow> UndefinedV)"

text \<open>
  \<^verbatim>\<open>obj[name] = value\<close> for a plain object: an own property is created or overwritten,
  whatever the prototype chain holds. \<open>None\<close> for \<^verbatim>\<open>__proto__\<close> and for an address that
  holds no plain object.
\<close>

definition set_property :: "'n evaluator \<Rightarrow> nat \<Rightarrow> string \<Rightarrow> 'n val \<Rightarrow> 'n evaluator option" where
  "set_property s a name v =
     (if name = ''__proto__'' then None
      else (case heap (store s) a of
              Some (Object props proto) \<Rightarrow>
                Some (s\<lparr>store := (store s)\<lparr>heap := (heap (store s))(a \<mapsto> Object (props(name \<mapsto> v)) proto)\<rparr>\<rparr>)
            | _ \<Rightarrow> None))"

text \<open>\<^verbatim>\<open>this.currentScope[name] = value\<close>, as a step that returns \<open>value\<close>.\<close>

definition assign_variable :: "string \<Rightarrow> 'n val \<Rightarrow> 'n evaluator \<Rightarrow> ('n, 'n val) answer" where
  "assign_variable name v s =
     (case set_property s (currentScope s) name v of
        None \<Rightarrow> Some (Unmodelled, s)
      | Some s' \<Rightarrow> Some (Normal v, s'))"

text \<open>The keys of \<^verbatim>\<open>Runtime.initializeBuiltins()\<close>: functions, and three objects.\<close>

definition builtin_functions :: "string list" where
  "builtin_functions =
     [''print'', ''println'', ''input'', ''len'', ''str'', ''int'', ''float'', ''bool'', ''type'',
      ''range'', ''map'', ''filter'', ''reduce'', ''sort'', ''reverse'', ''join'', ''split'',
      ''push'', ''pop'', ''shift'', ''unshift'', ''slice'', ''indexOf'', ''includes'', ''keys'',
      ''values'', ''entries'', ''assign'', ''freeze'', ''seal'', ''setTimeout'', ''setInterval'',
      ''clearTimeout'', ''clearInterval'', ''Promise'', ''fetch'']"

definition builtin_objects :: "string list" where
  "builtin_objects = [''Math'', ''Date'', ''JSON'']"

text \<open>
  \<^verbatim>\<open>name in this.runtime.builtins\<close> and \<^verbatim>\<open>this.runtime.builtins[name]\<close>: the table is a
  plain object, so it inherits from \<^verbatim>\<open>Object.prototype\<close> too.
\<close>

definition builtins :: "string \<Rightarrow> 'n val option" where
  "builtins name =
     (if name \<in> set builtin_functions then Some (NativeFunction name)
      else if name \<in> set builtin_objects then Some (NativeObject name)
      else object_prototype name)"

subsection \<open>The methods\<close>

text \<open>
  Every method reaches the others through \<^verbatim>\<open>this.evaluateNode\<close>. The methods take it as
  the argument \<open>ev\<close>; \<open>evaluateNode\<close> below passes itself, with less fuel.
\<close>

type_synonym 'n eval = "'n node \<Rightarrow> 'n evaluator \<Rightarrow> ('n, 'n val) answer"

text \<open>
  \<^verbatim>\<open>evaluateProgram\<close> and \<^verbatim>\<open>evaluateBlock\<close> are the same loop: the value of the last
  statement, \<^verbatim>\<open>null\<close> for no statement.
\<close>

primrec statements_from :: "'n eval \<Rightarrow> 'n node list \<Rightarrow> 'n val \<Rightarrow> 'n evaluator
    \<Rightarrow> ('n, 'n val) answer" where
  "statements_from ev [] res s = Some (Normal res, s)"
| "statements_from ev (stmt # rest) res s =
     seq (ev stmt s) (\<lambda>v s1. statements_from ev rest v s1)"

definition evaluateBlock :: "'n eval \<Rightarrow> 'n node list \<Rightarrow> 'n evaluator \<Rightarrow> ('n, 'n val) answer" where
  "evaluateBlock ev statements s = statements_from ev statements NullV s"

definition evaluateProgram :: "'n eval \<Rightarrow> 'n node list \<Rightarrow> 'n evaluator \<Rightarrow> ('n, 'n val) answer" where
  "evaluateProgram ev statements s = statements_from ev statements NullV s"

text \<open>\<^verbatim>\<open>nodes.map(n => this.evaluateNode(n))\<close>, from left to right.\<close>

primrec evaluateAll :: "'n eval \<Rightarrow> 'n node list \<Rightarrow> 'n evaluator \<Rightarrow> ('n, 'n val list) answer" where
  "evaluateAll ev [] s = Some (Normal [], s)"
| "evaluateAll ev (e # es) s =
     seq (ev e s) (\<lambda>v s1. seq (evaluateAll ev es s1) (\<lambda>vs s2. Some (Normal (v # vs), s2)))"

definition evaluateVariableDeclaration ::
    "'n eval \<Rightarrow> string \<Rightarrow> 'n node option \<Rightarrow> 'n evaluator \<Rightarrow> ('n, 'n val) answer" where
  "evaluateVariableDeclaration ev name initializer s =
     seq (case initializer of Some e \<Rightarrow> ev e s | None \<Rightarrow> Some (Normal NullV, s))
       (\<lambda>v s1. assign_variable name v s1)"

definition evaluateFunctionDeclaration ::
    "string \<Rightarrow> string list \<Rightarrow> 'n node list \<Rightarrow> 'n evaluator \<Rightarrow> ('n, 'n val) answer" where
  "evaluateFunctionDeclaration name parameters body s =
     (case alloc (Function parameters body (currentScope s)) s of
        (func, s1) \<Rightarrow> assign_variable name (Ref func) s1)"

text \<open>
  The two loops of \<^verbatim>\<open>evaluateClassDeclaration\<close>, which declare each method and property
  in the class's own scope and copy it into \<^verbatim>\<open>classObj.methods\<close> or
  \<^verbatim>\<open>classObj.properties\<close>.
\<close>

definition copy_declared :: "nat \<Rightarrow> string \<Rightarrow> 'n evaluator \<Rightarrow> ('n, 'n val) answer" where
  "copy_declared target name s =
     (if name = ''__proto__'' then Some (Unmodelled, s)
      else (case set_property s target name (get_property s (currentScope s) name) of
              None \<Rightarrow> Some (Unmodelled, s)
            | Some s' \<Rightarrow> Some (Normal NullV, s')))"

primrec class_methods :: "nat \<Rightarrow> (string \<times> string list \<times> 'n node list) list \<Rightarrow> 'n evaluator
    \<Rightarrow> ('n, 'n val) answer" where
  "class_methods target [] s = Some (Normal NullV, s)"
| "class_methods target (method # rest) s =
     (case method of
        (name, parameters, body) \<Rightarrow>
          seq (evaluateFunctionDeclaration name parameters body s)
            (\<lambda>v s1. seq (copy_declared target name s1) (\<lambda>v s2. class_methods target rest s2)))"

primrec class_properties :: "'n eval \<Rightarrow> nat \<Rightarrow> (string \<times> string \<times> 'n node option) list
    \<Rightarrow> 'n evaluator \<Rightarrow> ('n, 'n val) answer" where
  "class_properties ev target [] s = Some (Normal NullV, s)"
| "class_properties ev target (property # rest) s =
     (case property of
        (keyword, name, initializer) \<Rightarrow>
          seq (evaluateVariableDeclaration ev name initializer s)
            (\<lambda>v s1. seq (copy_declared target name s1)
               (\<lambda>v s2. class_properties ev target rest s2)))"

definition evaluateClassDeclaration ::
    "'n eval \<Rightarrow> string \<Rightarrow> string option \<Rightarrow> (string \<times> string list \<times> 'n node list) list
      \<Rightarrow> (string \<times> string \<times> 'n node option) list \<Rightarrow> 'n evaluator \<Rightarrow> ('n, 'n val) answer" where
  "evaluateClassDeclaration ev name superclass methods properties s =
     (case alloc (Object Map.empty None) s of
        (ms, s1) \<Rightarrow>
     (case alloc (Object Map.empty None) s1 of
        (ps, s2) \<Rightarrow>
     (case alloc (Object [''type'' \<mapsto> StringV ''class'', ''name'' \<mapsto> StringV name,
                         ''superclass'' \<mapsto> (case superclass of Some c \<Rightarrow> StringV c | None \<Rightarrow> NullV),
                         ''methods'' \<mapsto> Ref ms, ''properties'' \<mapsto> Ref ps] None) s2 of
        (classObj, s3) \<Rightarrow>
     (case alloc (Object Map.empty None) s3 of
        (classScope, s4) \<Rightarrow>
          seq (class_methods ms methods (s4\<lparr>currentScope := classScope\<rparr>))
            (\<lambda>v s5. seq (class_properties ev ps properties s5)
               (\<lambda>v s6. assign_variable name (Ref classObj)
                          (s6\<lparr>currentScope := currentScope s\<rparr>)))))))"

text \<open>
  \<^verbatim>\<open>evaluateImportStatement\<close>: \<^verbatim>\<open>loadModule\<close> is \<^verbatim>\<open>require\<close> behind a cache and throws
  when \<^verbatim>\<open>require\<close> does.
\<close>

primrec import_specifiers :: "('n, 'm) runtime_scheme \<Rightarrow> 'n val \<Rightarrow> (string \<times> string) list
    \<Rightarrow> 'n evaluator \<Rightarrow> ('n, 'n val) answer" where
  "import_specifiers h module [] s = Some (Normal module, s)"
| "import_specifiers h module (spec # rest) s =
     (case spec of
        (name, alias) \<Rightarrow>
          (if name = ''*'' then
             (case js_assign_all h (store s) (currentScope s) module of
                Inl t \<Rightarrow> Some (Throw t, s)
              | Inr st \<Rightarrow> import_specifiers h module rest (s\<lparr>store := st\<rparr>))
           else
             (case js_get h (store s) module (StringV name) of
                Inl t \<Rightarrow> Some (Throw t, s)
              | Inr v \<Rightarrow>
                  seq (assign_variable alias v s)
                    (\<lambda>v s1. import_specifiers h module rest s1))))"

definition evaluateImportStatement :: "('n, 'm) runtime_scheme \<Rightarrow> (string \<times> string) list \<Rightarrow> string
    \<Rightarrow> 'n evaluator \<Rightarrow> ('n, 'n val) answer" where
  "evaluateImportStatement h specifiers source s =
     (case js_require h source of
        None \<Rightarrow> Some (Throw (Error (FailedToLoadModule source)), s)
      | Some module \<Rightarrow> import_specifiers h module specifiers s)"

text \<open>
  \<^verbatim>\<open>try { ... } catch (error) { ... } finally { ... }\<close>. The catch clause catches whatever
  was thrown, the three signals included. When the catch body throws, the line that
  restores the scope is not reached. The finally block runs last; its own throw
  replaces the outcome, its value does not.
\<close>

definition run_finally :: "'n eval \<Rightarrow> 'n node list option \<Rightarrow> ('n, 'n val) answer
    \<Rightarrow> ('n, 'n val) answer" where
  "run_finally ev finallyBlock outcome =
     (case outcome of
        None \<Rightarrow> None
      | Some (Unmodelled, s) \<Rightarrow> Some (Unmodelled, s)
      | Some (c, s) \<Rightarrow>
          (case finallyBlock of
             None \<Rightarrow> Some (c, s)
           | Some statements \<Rightarrow> seq (evaluateBlock ev statements s) (\<lambda>v s1. Some (c, s1))))"

definition evaluateTryStatement ::
    "'n eval \<Rightarrow> 'n node list \<Rightarrow> (string option \<times> 'n node list) option \<Rightarrow> 'n node list option
      \<Rightarrow> 'n evaluator \<Rightarrow> ('n, 'n val) answer" where
  "evaluateTryStatement ev tryBlock catchClause finallyBlock s =
     run_finally ev finallyBlock
       (case evaluateBlock ev tryBlock s of
          Some (Throw error, s1) \<Rightarrow>
            (case catchClause of
               Some (parameter, body) \<Rightarrow>
                 (case alloc (Object Map.empty (Some (currentScope s1))) s1 of
                    (scope, s2) \<Rightarrow>
                      seq (case parameter of
                             Some name \<Rightarrow>
                               (if name \<noteq> []
                                then assign_variable name (ErrorObject error)
                                       (s2\<lparr>currentScope := scope\<rparr>)
                                else Some (Normal NullV, s2\<lparr>currentScope := scope\<rparr>))
                           | None \<Rightarrow> Some (Normal NullV, s2\<lparr>currentScope := scope\<rparr>))
                        (\<lambda>v s3. seq (evaluateBlock ev body s3)
                           (\<lambda>res s4. Some (Normal res, s4\<lparr>currentScope := currentScope s1\<rparr>))))
             | None \<Rightarrow> Some (Throw error, s1))
        | other \<Rightarrow> other)"

primrec elif_branches :: "('n, 'm) host_scheme \<Rightarrow> 'n eval \<Rightarrow> ('n node \<times> 'n node list) list
    \<Rightarrow> 'n node list option \<Rightarrow> 'n evaluator \<Rightarrow> ('n, 'n val) answer" where
  "elif_branches h ev [] elseBranch s =
     (case elseBranch of
        Some statements \<Rightarrow> evaluateBlock ev statements s
      | None \<Rightarrow> Some (Normal NullV, s))"
| "elif_branches h ev (elif # rest) elseBranch s =
     (case elif of
        (condition, body) \<Rightarrow>
          seq (ev condition s)
            (\<lambda>c s1. if truthy h c then evaluateBlock ev body s1
                     else elif_branches h ev rest elseBranch s1))"

definition evaluateIfStatement ::
    "('n, 'm) host_scheme \<Rightarrow> 'n eval \<Rightarrow> 'n node \<Rightarrow> 'n node list \<Rightarrow> ('n node \<times> 'n node list) list
      \<Rightarrow> 'n node list option \<Rightarrow> 'n evaluator \<Rightarrow> ('n, 'n val) answer" where
  "evaluateIfStatement h ev condition thenBranch elifBranches elseBranch s =
     seq (ev condition s)
       (\<lambda>c s1. if truthy h c then evaluateBlock ev thenBranch s1
                else elif_branches h ev elifBranches elseBranch s1)"

text \<open>
  \<^verbatim>\<open>evaluateWhileStatement\<close>. \<^verbatim>\<open>if (iterations++ > maxIterations)\<close> compares the count
  before the increment, so the loop stops by itself: no call is made with a count above
  \<^verbatim>\<open>maxIterations + 1\<close>.
\<close>

definition maxIterations :: int where
  "maxIterations = 1000000"

function while_loop :: "('n, 'm) host_scheme \<Rightarrow> 'n eval \<Rightarrow> 'n node \<Rightarrow> 'n node list \<Rightarrow> int \<Rightarrow> 'n val
    \<Rightarrow> 'n evaluator \<Rightarrow> ('n, 'n val) answer" where
  "while_loop h ev condition body iterations res s =
     (case ev condition s of
        None \<Rightarrow> None
      | Some (Throw t, s1) \<Rightarrow> Some (Throw t, s1)
      | Some (Unmodelled, s1) \<Rightarrow> Some (Unmodelled, s1)
      | Some (Normal c, s1) \<Rightarrow>
          (if truthy h c then
             (if iterations > maxIterations then Some (Throw (Error InfiniteLoop), s1)
              else
                (case evaluateBlock ev body s1 of
                   None \<Rightarrow> None
                 | Some (Normal v, s2) \<Rightarrow>
                     while_loop h ev condition body (iterations + 1) v s2
                 | Some (Throw BreakException, s2) \<Rightarrow> Some (Normal res, s2)
                 | Some (Throw ContinueException, s2) \<Rightarrow>
                     while_loop h ev condition body (iterations + 1) res s2
                 | Some (Throw t, s2) \<Rightarrow> Some (Throw t, s2)
                 | Some (Unmodelled, s2) \<Rightarrow> Some (Unmodelled, s2)))
           else Some (Normal res, s1)))"
  by pat_completeness auto
termination
  by (relation "measure (\<lambda>(h, ev, condition, body, iterations, res, s).
                  nat (maxIterations + 1 - iterations))") auto

declare while_loop.simps [simp del]

definition evaluateWhileStatement :: "('n, 'm) host_scheme \<Rightarrow> 'n eval \<Rightarrow> 'n node \<Rightarrow> 'n node list
    \<Rightarrow> 'n evaluator \<Rightarrow> ('n, 'n val) answer" where
  "evaluateWhileStatement h ev condition body s = while_loop h ev condition body 0 NullV s"

text \<open>
  \<^verbatim>\<open>for (let i = start; i <= end; i += step) { ... }\<close> has no ceiling, so the model
  gives it fuel: one unit for each test of \<^verbatim>\<open>i <= end\<close>. The loop scope is restored
  after the loop only: a throw from the body leaves it in place.
\<close>

primrec for_loop :: "nat \<Rightarrow> ('n, 'm) runtime_scheme \<Rightarrow> 'n eval \<Rightarrow> string \<Rightarrow> 'n val \<Rightarrow> 'n val
    \<Rightarrow> 'n val \<Rightarrow> 'n node list \<Rightarrow> 'n val \<Rightarrow> 'n evaluator \<Rightarrow> ('n, 'n val) answer" where
  "for_loop 0 h ev iterator i end step body res s = None"
| "for_loop (Suc n) h ev iterator i end step body res s =
     (if truthy h (js_binary h ''<='' (store s) i end) then
        (case assign_variable iterator i s of
           None \<Rightarrow> None
         | Some (Throw t, s1) \<Rightarrow> Some (Throw t, s1)
         | Some (Unmodelled, s1) \<Rightarrow> Some (Unmodelled, s1)
         | Some (Normal w, s1) \<Rightarrow>
             (case evaluateBlock ev body s1 of
                None \<Rightarrow> None
              | Some (Normal v, s2) \<Rightarrow>
                  for_loop n h ev iterator (js_binary h ''+'' (store s2) i step) end step body v s2
              | Some (Throw BreakException, s2) \<Rightarrow> Some (Normal res, s2)
              | Some (Throw ContinueException, s2) \<Rightarrow>
                  for_loop n h ev iterator (js_binary h ''+'' (store s2) i step) end step body res s2
              | Some (Throw t, s2) \<Rightarrow> Some (Throw t, s2)
              | Some (Unmodelled, s2) \<Rightarrow> Some (Unmodelled, s2)))
      else Some (Normal res, s))"

definition evaluateForStatement :: "nat \<Rightarrow> ('n, 'm) runtime_scheme \<Rightarrow> 'n eval \<Rightarrow> string \<Rightarrow> 'n node
    \<Rightarrow> 'n node \<Rightarrow> 'n node \<Rightarrow> 'n node list \<Rightarrow> 'n evaluator \<Rightarrow> ('n, 'n val) answer" where
  "evaluateForStatement n h ev iterator start end step body s =
     seq (ev start s)
       (\<lambda>start_v s1. seq (ev end s1)
       (\<lambda>end_v s2. seq (ev step s2)
       (\<lambda>step_v s3.
          (case alloc (Object Map.empty (Some (currentScope s3))) s3 of
             (scope, s4) \<Rightarrow>
               seq (for_loop n h ev iterator start_v end_v step_v body NullV
                      (s4\<lparr>currentScope := scope\<rparr>))
                 (\<lambda>res s5. Some (Normal res, s5\<lparr>currentScope := currentScope s3\<rparr>))))))"

definition evaluateReturnStatement :: "'n eval \<Rightarrow> 'n node option \<Rightarrow> 'n evaluator
    \<Rightarrow> ('n, 'n val) answer" where
  "evaluateReturnStatement ev v s =
     seq (case v of Some e \<Rightarrow> ev e s | None \<Rightarrow> Some (Normal NullV, s))
       (\<lambda>v s1. Some (Throw (ReturnException v), s1))"

text \<open>
  \<^verbatim>\<open>evaluateAssignment\<close>. The value is evaluated first. For an identifier, \<^verbatim>\<open>=\<close> writes
  the current scope; a compound operator reads \<^verbatim>\<open>this.currentScope[name] || 0\<close> through
  the prototype chain and writes the current scope; any other operator writes nothing. The
  result is \<^verbatim>\<open>this.currentScope[name]\<close>, read again.
\<close>

definition compound_operators :: "string list" where
  "compound_operators = [''+='', ''-='', ''*='', ''/='']"

definition evaluateAssignment :: "('n, 'm) runtime_scheme \<Rightarrow> 'n eval \<Rightarrow> 'n node \<Rightarrow> string
    \<Rightarrow> 'n node \<Rightarrow> 'n evaluator \<Rightarrow> ('n, 'n val) answer" where
  "evaluateAssignment h ev target operator rhs s =
     seq (ev rhs s)
       (\<lambda>v s1.
          (case target of
             Identifier name \<Rightarrow>
               (if name = ''__proto__'' then Some (Unmodelled, s1)
                else
                  seq (if operator = ''='' then assign_variable name v s1
                       else if operator \<in> set compound_operators then
                         (let cur = get_property s1 (currentScope s1) name;
                              current = (if truthy h cur then cur else NumberV (num_of_int h 0))
                          in assign_variable name
                               (js_binary h (take 1 operator) (store s1) current v) s1)
                       else Some (Normal v, s1))
                    (\<lambda>w s2. Some (Normal (get_property s2 (currentScope s2) name), s2)))
           | IndexExpression object index \<Rightarrow>
               seq (ev object s1)
                 (\<lambda>ob s2. seq (ev index s2)
                 (\<lambda>ix s3.
                    (case js_set h (store s3) ob ix v of
                       Inl t \<Rightarrow> Some (Throw t, s3)
                     | Inr st \<Rightarrow> Some (Normal v, s3\<lparr>store := st\<rparr>))))
           | MemberExpression object property \<Rightarrow>
               seq (ev object s1)
                 (\<lambda>ob s2.
                    (case js_set h (store s2) ob (StringV property) v of
                       Inl t \<Rightarrow> Some (Throw t, s2)
                     | Inr st \<Rightarrow> Some (Normal v, s2\<lparr>store := st\<rparr>)))
           | _ \<Rightarrow> Some (Throw (Error InvalidAssignmentTarget), s1)))"

definition host_operators :: "string list" where
  "host_operators = [''+'', ''-'', ''*'', ''/'', ''%'', ''=='', ''!='', ''<'', ''<='', ''>'', ''>='']"

text \<open>Both operands are evaluated before the \<^verbatim>\<open>switch\<close>, also for \<^verbatim>\<open>and\<close> and \<^verbatim>\<open>or\<close>.\<close>

definition evaluateBinaryExpression :: "('n, 'm) runtime_scheme \<Rightarrow> 'n eval \<Rightarrow> 'n node \<Rightarrow> string
    \<Rightarrow> 'n node \<Rightarrow> 'n evaluator \<Rightarrow> ('n, 'n val) answer" where
  "evaluateBinaryExpression h ev left operator right s =
     seq (ev left s)
       (\<lambda>l s1. seq (ev right s1)
       (\<lambda>r s2.
          if operator \<in> set host_operators then Some (Normal (js_binary h operator (store s2) l r), s2)
          else if operator = ''and'' \<or> operator = ''&&''
          then Some (Normal (if truthy h l then r else l), s2)
          else if operator = ''or'' \<or> operator = ''||''
          then Some (Normal (if truthy h l then l else r), s2)
          else Some (Throw (Error (UnknownBinaryOperator operator)), s2)))"

definition evaluateUnaryExpression :: "('n, 'm) runtime_scheme \<Rightarrow> 'n eval \<Rightarrow> string \<Rightarrow> 'n node
    \<Rightarrow> 'n evaluator \<Rightarrow> ('n, 'n val) answer" where
  "evaluateUnaryExpression h ev operator operand s =
     seq (ev operand s)
       (\<lambda>v s1.
          if operator = ''-'' \<or> operator = ''+'' then Some (Normal (js_unary h operator (store s1) v), s1)
          else if operator = ''not'' \<or> operator = ''!'' then Some (Normal (BooleanV (\<not> truthy h v)), s1)
          else Some (Throw (Error (UnknownUnaryOperator operator)), s1))"

text \<open>
  The call of a function record: a new scope on top of the scope the function was
  declared in, the parameters bound by position (\<^verbatim>\<open>undefined\<close> for a missing argument),
  the body, and the caller's scope back whatever the body did. The body's value is not
  returned: only \<^verbatim>\<open>return\<close> gives a value, and falling off the end gives \<^verbatim>\<open>null\<close>.
\<close>

primrec bind_parameters :: "string list \<Rightarrow> 'n val list \<Rightarrow> 'n evaluator \<Rightarrow> ('n, 'n val) answer" where
  "bind_parameters [] args s = Some (Normal NullV, s)"
| "bind_parameters (parameter # rest) args s =
     seq (assign_variable parameter (case args of [] \<Rightarrow> UndefinedV | a # as \<Rightarrow> a) s)
       (\<lambda>v s1. bind_parameters rest (tl args) s1)"

definition call_function :: "'n eval \<Rightarrow> string list \<Rightarrow> 'n node list \<Rightarrow> nat \<Rightarrow> 'n val list
    \<Rightarrow> 'n evaluator \<Rightarrow> ('n, 'n val) answer" where
  "call_function ev parameters body scope args s =
     (case alloc (Object Map.empty (Some scope)) s of
        (callScope, s1) \<Rightarrow>
          (case seq (bind_parameters parameters args (s1\<lparr>currentScope := callScope\<rparr>))
                  (\<lambda>v s2. evaluateBlock ev body s2) of
             None \<Rightarrow> None
           | Some (Normal v, s3) \<Rightarrow> Some (Normal NullV, s3\<lparr>currentScope := currentScope s\<rparr>)
           | Some (Throw (ReturnException v), s3) \<Rightarrow>
               Some (Normal v, s3\<lparr>currentScope := currentScope s\<rparr>)
           | Some (Throw t, s3) \<Rightarrow> Some (Throw t, s3\<lparr>currentScope := currentScope s\<rparr>)
           | Some (Unmodelled, s3) \<Rightarrow> Some (Unmodelled, s3)))"

text \<open>
  \<^verbatim>\<open>evaluateCallExpression\<close>: the callee, then the arguments, then
  \<^verbatim>\<open>typeof callee === 'function'\<close> (a function of the host), then
  \<^verbatim>\<open>callee.type === 'function'\<close> (a function record), else \<open>Not a function\<close>. Reading
  \<^verbatim>\<open>.type\<close> of \<^verbatim>\<open>null\<close> or \<^verbatim>\<open>undefined\<close> is a \<^verbatim>\<open>TypeError\<close> of the host.
\<close>

definition evaluateCallExpression :: "('n, 'm) runtime_scheme \<Rightarrow> 'n eval \<Rightarrow> 'n node \<Rightarrow> 'n node list
    \<Rightarrow> 'n evaluator \<Rightarrow> ('n, 'n val) answer" where
  "evaluateCallExpression h ev callee arguments s =
     seq (ev callee s)
       (\<lambda>f s1. seq (evaluateAll ev arguments s1)
       (\<lambda>args s2.
          (case f of
             NativeFunction name \<Rightarrow>
               (case js_call h name args (store s2) of
                  (Inl t, st) \<Rightarrow> Some (Throw t, s2\<lparr>store := st\<rparr>)
                | (Inr v, st) \<Rightarrow> Some (Normal v, s2\<lparr>store := st\<rparr>))
           | Ref a \<Rightarrow>
               (case heap (store s2) a of
                  Some (Function parameters body scope) \<Rightarrow>
                    call_function ev parameters body scope args s2
                | Some (Object props proto) \<Rightarrow>
                    (if lookup s2 a ''type'' = Some (StringV ''function'') then Some (Unmodelled, s2)
                     else Some (Throw (Error NotAFunction), s2))
                | Some (Array vs) \<Rightarrow> Some (Throw (Error NotAFunction), s2)
                | None \<Rightarrow> Some (Unmodelled, s2))
           | NativeObject name \<Rightarrow>
               (case js_get h (store s2) f (StringV ''type'') of
                  Inl t \<Rightarrow> Some (Throw t, s2)
                | Inr ty \<Rightarrow>
                    (if ty = StringV ''function'' then Some (Unmodelled, s2)
                     else Some (Throw (Error NotAFunction), s2)))
           | NullV \<Rightarrow> Some (Throw (Error (HostError ''TypeError'')), s2)
           | UndefinedV \<Rightarrow> Some (Throw (Error (HostError ''TypeError'')), s2)
           | _ \<Rightarrow> Some (Throw (Error NotAFunction), s2))))"

definition evaluateIndexExpression :: "('n, 'm) runtime_scheme \<Rightarrow> 'n eval \<Rightarrow> 'n node \<Rightarrow> 'n node
    \<Rightarrow> 'n evaluator \<Rightarrow> ('n, 'n val) answer" where
  "evaluateIndexExpression h ev object index s =
     seq (ev object s)
       (\<lambda>ob s1. seq (ev index s1)
       (\<lambda>ix s2.
          (case js_get h (store s2) ob ix of
             Inl t \<Rightarrow> Some (Throw t, s2)
           | Inr v \<Rightarrow> Some (Normal v, s2))))"

definition evaluateMemberExpression :: "('n, 'm) runtime_scheme \<Rightarrow> 'n eval \<Rightarrow> 'n node \<Rightarrow> string
    \<Rightarrow> 'n evaluator \<Rightarrow> ('n, 'n val) answer" where
  "evaluateMemberExpression h ev object property s =
     seq (ev object s)
       (\<lambda>ob s1.
          (case js_get h (store s1) ob (StringV property) of
             Inl t \<Rightarrow> Some (Throw t, s1)
           | Inr v \<Rightarrow> Some (Normal v, s1)))"

text \<open>
  \<^verbatim>\<open>evaluateIdentifier\<close>: the current scope with its whole prototype chain, then each
  prototype in turn, then the global scope, then the builtins, and else the error.
  \<open>prototype_walk\<close> is the \<^verbatim>\<open>while (Object.getPrototypeOf(scope))\<close> loop, whose last
  round looks at \<^verbatim>\<open>Object.prototype\<close> itself.
\<close>

primrec prototype_walk :: "nat \<Rightarrow> 'n evaluator \<Rightarrow> nat \<Rightarrow> string \<Rightarrow> 'n val option" where
  "prototype_walk 0 s a name = None"
| "prototype_walk (Suc k) s a name =
     (case heap (store s) a of
        Some (Object props proto) \<Rightarrow>
          (case proto of
             Some parent \<Rightarrow>
               (case lookup s parent name of
                  Some v \<Rightarrow> Some v
                | None \<Rightarrow> prototype_walk k s parent name)
           | None \<Rightarrow> object_prototype name)
      | _ \<Rightarrow> None)"

definition evaluateIdentifier :: "string \<Rightarrow> 'n evaluator \<Rightarrow> ('n, 'n val) answer" where
  "evaluateIdentifier name s =
     (if name = ''__proto__'' then Some (Unmodelled, s)
      else
        (case lookup s (currentScope s) name of
           Some v \<Rightarrow> Some (Normal v, s)
         | None \<Rightarrow>
             (case prototype_walk (next_ref (store s)) s (currentScope s) name of
                Some v \<Rightarrow> Some (Normal v, s)
              | None \<Rightarrow>
                  (case lookup s (globalScope s) name of
                     Some v \<Rightarrow> Some (Normal v, s)
                   | None \<Rightarrow>
                       (case builtins name of
                          Some v \<Rightarrow> Some (Normal v, s)
                        | None \<Rightarrow> Some (Throw (Error (UndefinedVariable name)), s))))))"

definition evaluateArrayLiteral :: "'n eval \<Rightarrow> 'n node list \<Rightarrow> 'n evaluator \<Rightarrow> ('n, 'n val) answer" where
  "evaluateArrayLiteral ev elements s =
     seq (evaluateAll ev elements s)
       (\<lambda>vs s1. case alloc (Array vs) s1 of (a, s2) \<Rightarrow> Some (Normal (Ref a), s2))"

primrec object_properties :: "'n eval \<Rightarrow> nat \<Rightarrow> (string \<times> 'n node) list \<Rightarrow> 'n evaluator
    \<Rightarrow> ('n, 'n val) answer" where
  "object_properties ev ob [] s = Some (Normal (Ref ob), s)"
| "object_properties ev ob (prop # rest) s =
     (case prop of
        (key, e) \<Rightarrow>
          seq (ev e s)
            (\<lambda>v s1.
               (case set_property s1 ob key v of
                  None \<Rightarrow> Some (Unmodelled, s1)
                | Some s2 \<Rightarrow> object_properties ev ob rest s2)))"

definition evaluateObjectLiteral :: "'n eval \<Rightarrow> (string \<times> 'n node) list \<Rightarrow> 'n evaluator
    \<Rightarrow> ('n, 'n val) answer" where
  "evaluateObjectLiteral ev properties s =
     (case alloc (Object Map.empty None) s of (ob, s1) \<Rightarrow> object_properties ev ob properties s1)"

text \<open>
  \<^verbatim>\<open>evaluateNode\<close>: the \<^verbatim>\<open>switch (node.type)\<close>. A call with no fuel left has no answer.
\<close>

primrec evaluateNode :: "nat \<Rightarrow> ('n, 'm) runtime_scheme \<Rightarrow> 'n node \<Rightarrow> 'n evaluator
    \<Rightarrow> ('n, 'n val) answer" where
  "evaluateNode 0 h node s = None"
| "evaluateNode (Suc n) h node s =
     (case node of
        Program statements \<Rightarrow> evaluateProgram (evaluateNode n h) statements s
      | VariableDeclaration keyword name initializer \<Rightarrow>
          evaluateVariableDeclaration (evaluateNode n h) name initializer s
      | FunctionDeclaration name parameters body \<Rightarrow>
          evaluateFunctionDeclaration name parameters body s
      | ClassDeclaration name superclass methods properties \<Rightarrow>
          evaluateClassDeclaration (evaluateNode n h) name superclass methods properties s
      | ImportStatement specifiers source \<Rightarrow> evaluateImportStatement h specifiers source s
      | TryStatement tryBlock catchClause finallyBlock \<Rightarrow>
          evaluateTryStatement (evaluateNode n h) tryBlock catchClause finallyBlock s
      | IfStatement condition thenBranch elifBranches elseBranch \<Rightarrow>
          evaluateIfStatement h (evaluateNode n h) condition thenBranch elifBranches elseBranch s
      | WhileStatement condition body \<Rightarrow>
          evaluateWhileStatement h (evaluateNode n h) condition body s
      | ForStatement iterator start end step body \<Rightarrow>
          evaluateForStatement n h (evaluateNode n h) iterator start end step body s
      | ReturnStatement v \<Rightarrow> evaluateReturnStatement (evaluateNode n h) v s
      | Break \<Rightarrow> Some (Throw BreakException, s)
      | Continue \<Rightarrow> Some (Throw ContinueException, s)
      | ExpressionStatement e \<Rightarrow> evaluateNode n h e s
      | Assignment target operator rhs \<Rightarrow>
          evaluateAssignment h (evaluateNode n h) target operator rhs s
      | BinaryExpression left operator right \<Rightarrow>
          evaluateBinaryExpression h (evaluateNode n h) left operator right s
      | UnaryExpression operator operand \<Rightarrow>
          evaluateUnaryExpression h (evaluateNode n h) operator operand s
      | CallExpression callee arguments \<Rightarrow>
          evaluateCallExpression h (evaluateNode n h) callee arguments s
      | IndexExpression object index \<Rightarrow>
          evaluateIndexExpression h (evaluateNode n h) object index s
      | MemberExpression object property \<Rightarrow>
          evaluateMemberExpression h (evaluateNode n h) object property s
      | Identifier name \<Rightarrow> evaluateIdentifier name s
      | Literal l \<Rightarrow> Some (Normal (literal_value l), s)
      | ArrayLiteral elements \<Rightarrow> evaluateArrayLiteral (evaluateNode n h) elements s
      | ObjectLiteral properties \<Rightarrow> evaluateObjectLiteral (evaluateNode n h) properties s)"

text \<open>
  \<^verbatim>\<open>new Evaluator(runtime)\<close>: \<^verbatim>\<open>this.globalScope = {}\<close> and
  \<^verbatim>\<open>this.currentScope = this.globalScope\<close>. \<^verbatim>\<open>evaluate(ast)\<close> is \<^verbatim>\<open>evaluateNode(ast)\<close>.
\<close>

definition Evaluator :: "'n evaluator" where
  "Evaluator =
     \<lparr>store = \<lparr>heap = [0 \<mapsto> Object Map.empty None], next_ref = 1\<rparr>,
      globalScope = 0, currentScope = 0\<rparr>"

definition evaluate :: "nat \<Rightarrow> ('n, 'm) runtime_scheme \<Rightarrow> 'n node \<Rightarrow> 'n evaluator
    \<Rightarrow> ('n, 'n val) answer" where
  "evaluate fuel h ast s = evaluateNode fuel h ast s"

section \<open>The engine\<close>

text \<open>
  \<^verbatim>\<open>new LumosEngine()\<close> builds one runtime, one compiler and one evaluator, and keeps
  them. Of these only the evaluator has a state that \<^verbatim>\<open>execute\<close> changes.
  \<^verbatim>\<open>execute(code)\<close>, with no options, lexes, parses and evaluates with
  \<^verbatim>\<open>this.evaluator\<close>; whatever is thrown on the way, a signal included, comes out as
  \<^verbatim>\<open>Lumos Execution Error\<close>.
\<close>

record 'n engine =
  evaluator :: "'n evaluator"

definition LumosEngine :: "'n engine" where
  "LumosEngine = \<lparr>evaluator = Evaluator\<rparr>"

datatype 'n execution_error =
    LexError lex_error
  | ParseError parse_error
  | RuntimeError "'n thrown"

datatype 'n executed =
    Returned "'n val"
  | LumosExecutionError "'n execution_error"
  | NotModelled

definition execute :: "nat \<Rightarrow> ('n, 'm) runtime_scheme \<Rightarrow> string \<Rightarrow> 'n engine
    \<Rightarrow> ('n executed \<times> 'n engine) option" where
  "execute fuel h code eng =
     (case tokenize h code of
        Inl e \<Rightarrow> Some (LumosExecutionError (LexError e), eng)
      | Inr tokens \<Rightarrow>
          (case parse fuel h tokens of
             OutOfFuel \<Rightarrow> None
           | Failure e \<Rightarrow> Some (LumosExecutionError (ParseError e), eng)
           | Success ast \<Rightarrow>
               (case evaluate fuel h ast (evaluator eng) of
                  None \<Rightarrow> None
                | Some (Normal v, s) \<Rightarrow> Some (Returned v, eng\<lparr>evaluator := s\<rparr>)
                | Some (Throw t, s) \<Rightarrow>
                    Some (LumosExecutionError (RuntimeError t), eng\<lparr>evaluator := s\<rparr>)
                | Some (Unmodelled, s) \<Rightarrow> Some (NotModelled, eng\<lparr>evaluator := s\<rparr>))))"

section \<open>A runtime for closed examples\<close>

text \<open>
  The integer host, extended to a runtime that knows the operators on two numbers and
  nothing else: its other operators give \<^verbatim>\<open>undefined\<close>, its objects have no properties,
  its functions return \<^verbatim>\<open>null\<close> and it has no modules. The examples use numbers only.
\<close>

definition integer_binary :: "string \<Rightarrow> int \<Rightarrow> int \<Rightarrow> int val" where
  "integer_binary operator a b =
     (if operator = ''+'' then NumberV (a + b)
      else if operator = ''-'' then NumberV (a - b)
      else if operator = ''*'' then NumberV (a * b)
      else if operator = ''=='' then BooleanV (a = b)
      else if operator = ''!='' then BooleanV (a \<noteq> b)
      else if operator = ''<'' then BooleanV (a < b)
      else if operator = ''<='' then BooleanV (a \<le> b)
      else if operator = ''>'' then BooleanV (a > b)
      else if operator = ''>='' then BooleanV (a \<ge> b)
      else UndefinedV)"

definition integer_runtime :: "int runtime" where
  "integer_runtime =
     \<lparr>num_add = (+), num_sub = (-), num_mul = (*), num_div = (div), num_mod = (mod),
      num_to_string = int_to_string, num_truthy = (\<lambda>n. n \<noteq> 0),
      parseFloat = (\<lambda>s. digits_value s 0), num_of_int = (\<lambda>i. i),
      js_binary = (\<lambda>operator st l r.
         case (l, r) of (NumberV a, NumberV b) \<Rightarrow> integer_binary operator a b | _ \<Rightarrow> UndefinedV),
      js_unary = (\<lambda>operator st v.
         case v of NumberV a \<Rightarrow> (if operator = ''-'' then NumberV (- a) else NumberV a)
         | _ \<Rightarrow> UndefinedV),
      js_get = (\<lambda>st ob ix. Inr UndefinedV),
      js_set = (\<lambda>st ob ix v. Inr st),
      js_call = (\<lambda>name args st. (Inr NullV, st)),
      js_require = (\<lambda>path. None),
      js_assign_all = (\<lambda>st scope module. Inr st)\<rparr>"

section \<open>Notions used by the properties of the evaluator\<close>



text \<open>
  The loop \<^verbatim>\<open>while (x < 1000001) { x += 1 }\<close> and the states it goes through: the global
  scope holds \<^verbatim>\<open>x\<close> only, and is the current scope.
\<close>

definition counter_state :: "int \<Rightarrow> int evaluator" where
  "counter_state k =
     \<lparr>store = \<lparr>heap = [0 \<mapsto> Object [''x'' \<mapsto> NumberV k] None], next_ref = 1\<rparr>,
      globalScope = 0, currentScope = 0\<rparr>"

definition counter_condition :: "int node" where
  "counter_condition = BinaryExpression (Identifier ''x'') ''<'' (Literal (Num 1000001))"

definition counter_body :: "int node list" where
  "counter_body = [ExpressionStatement (Assignment (Identifier ''x'') ''+='' (Literal (Num 1)))]"


text \<open>
  A state whose global scope is the object at \<open>g\<close>, and an answer whose state, if there
  is one, has that global scope.
\<close>

definition rooted :: "nat \<Rightarrow> 'n evaluator \<Rightarrow> bool" where
  "rooted g s = (globalScope s = g)"

definition keeps :: "nat \<Rightarrow> ('n, 'a) answer \<Rightarrow> bool" where
  "keeps g m = (\<forall>c s'. m = Some (c, s') \<longrightarrow> rooted g s')"


text \<open>
  The program \<^verbatim>\<open>x += 1\<close>, the engine whose evaluator is in the state where the global
  scope holds \<^verbatim>\<open>x = k\<close>, and two successive calls of \<^verbatim>\<open>execute\<close> with the same source on
  one engine, with the two results.
\<close>

definition increment_program :: "int node" where
  "increment_program =
     Program [ExpressionStatement (Assignment (Identifier ''x'') ''+='' (Literal (Num 1)))]"

definition counter_engine :: "int \<Rightarrow> int engine" where
  "counter_engine k = \<lparr>evaluator = counter_state k\<rparr>"



section \<open>Properties of the optimizer\<close>

subsection \<open>Dead-code elimination\<close>

lemma add_opt_mono: "x \<in> S \<Longrightarrow> x \<in> add_opt y S"
  by (simp add: add_opt_def split: option.splits)

lemma add_opt_Some: "x \<in> add_opt (Some x) S"
  by (simp add: add_opt_def)

lemma used_foldl_mono:
  "x \<in> S \<Longrightarrow> x \<in> foldl (\<lambda>used inst.
        add_opt (string_operand (arg2 inst))
          (add_opt (string_operand (arg1 inst))
            (add_opt (result_name (result inst)) used))) S xs"
  by (induction xs arbitrary: S) (simp_all add: add_opt_mono)

lemma used_foldl_result:
  "inst \<in> set xs \<Longrightarrow> result_name (result inst) = Some r \<Longrightarrow>
   r \<in> foldl (\<lambda>used inst.
        add_opt (string_operand (arg2 inst))
          (add_opt (string_operand (arg1 inst))
            (add_opt (result_name (result inst)) used))) S xs"
proof (induction xs arbitrary: S)
  case Nil
  then show ?case by simp
next
  case (Cons a xs)
  show ?case
  proof (cases "inst = a")
    case True
    with Cons.prems show ?thesis
      by (simp add: used_foldl_mono add_opt_mono add_opt_Some)
  next
    case False
    with Cons show ?thesis by simp
  qed
qed

lemma collect_used_result:
  "inst \<in> set instructions \<Longrightarrow> result_name (result inst) = Some r \<Longrightarrow>
   r \<in> collect_used instructions"
  unfolding collect_used_def by (rule used_foldl_result) simp_all

lemma labels_foldl_mono:
  "x \<in> S \<Longrightarrow> x \<in> foldl (\<lambda>labels inst.
        if op inst = ''label'' \<or> op inst = ''goto'' \<or> op inst = ''if_false''
        then add_opt (string_operand (arg1 inst)) (add_opt (result_name (result inst)) labels)
        else labels) S xs"
  by (induction xs arbitrary: S) (simp_all add: add_opt_mono)

lemma labels_foldl_label:
  "inst \<in> set xs \<Longrightarrow> op inst = ''label'' \<Longrightarrow> string_operand (arg1 inst) = Some l \<Longrightarrow>
   l \<in> foldl (\<lambda>labels inst.
        if op inst = ''label'' \<or> op inst = ''goto'' \<or> op inst = ''if_false''
        then add_opt (string_operand (arg1 inst)) (add_opt (result_name (result inst)) labels)
        else labels) S xs"
proof (induction xs arbitrary: S)
  case Nil
  then show ?case by simp
next
  case (Cons a xs)
  show ?case
  proof (cases "inst = a")
    case True
    with Cons.prems show ?thesis
      by (simp add: labels_foldl_mono add_opt_Some)
  next
    case False
    with Cons show ?thesis by simp
  qed
qed

lemma collect_labels_label:
  "inst \<in> set instructions \<Longrightarrow> op inst = ''label'' \<Longrightarrow>
   string_operand (arg1 inst) = Some l \<Longrightarrow> l \<in> collect_labels instructions"
  unfolding collect_labels_def by (rule labels_foldl_label)

lemma string_operand_Some: "string_operand a = Some l \<Longrightarrow> a = Str l"
  by (auto simp: string_operand_def split: literal.splits if_splits)

text \<open>
  The pass adds every instruction's own result name to \<open>used\<close> and every label's own
  name to \<open>labels\<close>, so the filter finds each name it looks for. On a list whose label
  instructions carry a non-empty name the pass removes nothing at all.
\<close>

lemma deadCodeElimination_removes_nothing:
  assumes "\<forall>inst \<in> set instructions.
             op inst = ''label'' \<longrightarrow> string_operand (arg1 inst) \<noteq> None"
  shows "deadCodeElimination instructions = instructions"
proof -
  have "keep_instruction (collect_labels instructions) (collect_used instructions) inst"
    if "inst \<in> set instructions" for inst
  proof (cases "op inst = ''label''")
    case True
    with assms that obtain l where l: "string_operand (arg1 inst) = Some l" by auto
    with that True have "l \<in> collect_labels instructions" by (rule_tac collect_labels_label)
    with True string_operand_Some [OF l] show ?thesis
      by (simp add: keep_instruction_def has_operand_def)
  next
    case False
    then show ?thesis
      using that by (auto simp: keep_instruction_def split: option.splits
          intro: collect_used_result)
  qed
  then show ?thesis by (simp add: deadCodeElimination_def)
qed

text \<open>
  C1. The claim: after one dead-code-elimination pass, every instruction whose result
  name is read by no instruction is dropped, and every label that no jump targets is
  dropped. The code does neither. In the list \<^verbatim>\<open>t0 = a + b; label L0\<close> no instruction
  reads \<open>t0\<close> and no jump targets \<open>L0\<close>, and the pass returns the list as it is.
\<close>

theorem deadCodeElimination_keeps_unread:
  "deadCodeElimination
     [\<lparr>op = ''+'', arg1 = Str ''a'', arg2 = Str ''b'', result = Some ''t0''\<rparr>,
      \<lparr>op = ''label'', arg1 = Str ''L0'', arg2 = Null, result = None\<rparr> :: int instruction]
   = [\<lparr>op = ''+'', arg1 = Str ''a'', arg2 = Str ''b'', result = Some ''t0''\<rparr>,
      \<lparr>op = ''label'', arg1 = Str ''L0'', arg2 = Null, result = None\<rparr>]"
  by (simp add: deadCodeElimination_def collect_labels_def collect_used_def keep_instruction_def
      has_operand_def add_opt_def string_operand_def result_name_def)

subsection \<open>Common-subexpression elimination\<close>

text \<open>
  C2, as the claim states it, fails: for \<^verbatim>\<open>t0 = x + y; x = 5; t1 = x + y\<close> the third
  instruction of the output is not the third instruction of the input.
\<close>

theorem cse_third_instruction_changed:
  "commonSubexpressionElimination integer_host
     [\<lparr>op = ''+'', arg1 = Str ''x'', arg2 = Str ''y'', result = Some ''t0''\<rparr>,
      \<lparr>op = ''assign'', arg1 = Num 5, arg2 = Null, result = Some ''x''\<rparr>,
      \<lparr>op = ''+'', arg1 = Str ''x'', arg2 = Str ''y'', result = Some ''t1''\<rparr>] ! 2
   \<noteq> \<lparr>op = ''+'', arg1 = Str ''x'', arg2 = Str ''y'', result = Some ''t1''\<rparr>"
  by (simp add: commonSubexpressionElimination_def is_arithmetic_def expression_key_def
      operand_to_string_def name_operand_def)

text \<open>
  C2, amended: for the sequence \<^verbatim>\<open>t0 = x + y; x = 5; t1 = x + y\<close> one pass of
  common-subexpression elimination does replace the third instruction with an assign of
  \<open>t0\<close> to \<open>t1\<close>, whatever the host and the number assigned to \<open>x\<close>; the first two
  instructions are unchanged. The pass keys on opcode and operands alone and does not see
  the assignment to \<open>x\<close> in between.
\<close>

theorem cse_folds_across_assignment:
  "commonSubexpressionElimination h
     [\<lparr>op = ''+'', arg1 = Str ''x'', arg2 = Str ''y'', result = Some ''t0''\<rparr>,
      \<lparr>op = ''assign'', arg1 = Num five, arg2 = Null, result = Some ''x''\<rparr>,
      \<lparr>op = ''+'', arg1 = Str ''x'', arg2 = Str ''y'', result = Some ''t1''\<rparr>]
   = [\<lparr>op = ''+'', arg1 = Str ''x'', arg2 = Str ''y'', result = Some ''t0''\<rparr>,
      \<lparr>op = ''assign'', arg1 = Num five, arg2 = Null, result = Some ''x''\<rparr>,
      \<lparr>op = ''assign'', arg1 = Str ''t0'', arg2 = Null, result = Some ''t1''\<rparr>]"
  by (simp add: commonSubexpressionElimination_def is_arithmetic_def expression_key_def
      operand_to_string_def name_operand_def)

subsection \<open>Constant folding\<close>

lemma fold_instruction_not_arithmetic:
  "is_arithmetic (op i) \<longrightarrow> (\<exists>a b. arg1 i = Num a \<and> arg2 i = Num b) \<Longrightarrow>
   \<not> is_arithmetic (op (fold_instruction h i))"
  by (auto simp: fold_instruction_def is_arithmetic_def)

text \<open>
  C6, as the claim states it, fails: the list \<^verbatim>\<open>return 1\<close> has no arithmetic
  instruction, so each of its arithmetic instructions has literal operands, and the pass
  returns it unchanged: the output holds an instruction that is not an assign.
\<close>

theorem constantFolding_keeps_other_instructions:
  "constantFolding integer_host
     [\<lparr>op = ''return'', arg1 = Num 1, arg2 = Null, result = None\<rparr>]
   = [\<lparr>op = ''return'', arg1 = Num 1, arg2 = Null, result = None\<rparr>]
   \<and> \<not> is_arithmetic ''return'' \<and> ''return'' \<noteq> ''assign''"
  by (simp add: constantFolding_def fold_instruction_def is_arithmetic_def)

text \<open>
  C6, amended: after one constant-folding pass over a list in which every arithmetic
  instruction has two literal-number operands, the output has the length of the input,
  each arithmetic instruction has become an assign to the same result that carries the
  computed literal, every other instruction is unchanged, and so no arithmetic
  instruction is left.
\<close>

theorem constantFolding_literal_operands:
  assumes "\<forall>i \<in> set instructions.
             is_arithmetic (op i) \<longrightarrow> (\<exists>a b. arg1 i = Num a \<and> arg2 i = Num b)"
  shows "length (constantFolding h instructions) = length instructions
    \<and> (\<forall>k < length instructions.
          if is_arithmetic (op (instructions ! k))
          then (\<exists>a b. arg1 (instructions ! k) = Num a \<and> arg2 (instructions ! k) = Num b
                 \<and> constantFolding h instructions ! k =
                     \<lparr>op = ''assign'', arg1 = Num (folded_value h (op (instructions ! k)) a b),
                      arg2 = Null, result = result (instructions ! k)\<rparr>)
          else constantFolding h instructions ! k = instructions ! k)
    \<and> (\<forall>j \<in> set (constantFolding h instructions). \<not> is_arithmetic (op j))"
proof (intro conjI allI impI ballI)
  show "length (constantFolding h instructions) = length instructions"
    by (simp add: constantFolding_def)
next
  fix k assume k: "k < length instructions"
  then have mem: "instructions ! k \<in> set instructions" by simp
  show "if is_arithmetic (op (instructions ! k))
          then (\<exists>a b. arg1 (instructions ! k) = Num a \<and> arg2 (instructions ! k) = Num b
                 \<and> constantFolding h instructions ! k =
                     \<lparr>op = ''assign'', arg1 = Num (folded_value h (op (instructions ! k)) a b),
                      arg2 = Null, result = result (instructions ! k)\<rparr>)
          else constantFolding h instructions ! k = instructions ! k"
  proof (cases "is_arithmetic (op (instructions ! k))")
    case True
    with assms mem obtain a b
      where "arg1 (instructions ! k) = Num a" "arg2 (instructions ! k) = Num b"
      by blast
    with True k show ?thesis by (simp add: constantFolding_def fold_instruction_def)
  next
    case False
    with k show ?thesis by (simp add: constantFolding_def fold_instruction_def)
  qed
next
  fix j assume "j \<in> set (constantFolding h instructions)"
  then obtain i where "i \<in> set instructions" "j = fold_instruction h i"
    by (auto simp: constantFolding_def)
  with assms show "\<not> is_arithmetic (op j)"
    by (simp add: fold_instruction_not_arithmetic)
qed

theorem constantFolding_literal_operands_witness:
  "length (constantFolding integer_host
     [\<lparr>op = ''+'', arg1 = Num 2, arg2 = Num 3, result = Some ''t0''\<rparr>,
      \<lparr>op = ''return'', arg1 = Str ''t0'', arg2 = Null, result = None\<rparr>]) = 2
   \<and> constantFolding integer_host
     [\<lparr>op = ''+'', arg1 = Num 2, arg2 = Num 3, result = Some ''t0''\<rparr>,
      \<lparr>op = ''return'', arg1 = Str ''t0'', arg2 = Null, result = None\<rparr>] ! 0
     = \<lparr>op = ''assign'', arg1 = Num 5, arg2 = Null, result = Some ''t0''\<rparr>
   \<and> constantFolding integer_host
     [\<lparr>op = ''+'', arg1 = Num 2, arg2 = Num 3, result = Some ''t0''\<rparr>,
      \<lparr>op = ''return'', arg1 = Str ''t0'', arg2 = Null, result = None\<rparr>] ! 1
     = \<lparr>op = ''return'', arg1 = Str ''t0'', arg2 = Null, result = None\<rparr>"
proof -
  let ?ex = "[\<lparr>op = ''+'', arg1 = Num (2::int), arg2 = Num 3, result = Some ''t0''\<rparr>,
      \<lparr>op = ''return'', arg1 = Str ''t0'', arg2 = Null, result = None\<rparr>]"
  have h: "\<forall>i \<in> set ?ex.
      is_arithmetic (op i) \<longrightarrow> (\<exists>a b. arg1 i = Num a \<and> arg2 i = Num b)"
    by (simp add: is_arithmetic_def)
  note t = constantFolding_literal_operands [OF h, of integer_host]
  from t have len: "length (constantFolding integer_host ?ex) = 2" by simp
  from t [THEN conjunct2, THEN conjunct1, rule_format, of 0]
  have k0: "constantFolding integer_host ?ex ! 0
        = \<lparr>op = ''assign'', arg1 = Num 5, arg2 = Null, result = Some ''t0''\<rparr>"
    by (simp add: is_arithmetic_def folded_value_def integer_host_def)
  from t [THEN conjunct2, THEN conjunct1, rule_format, of 1]
  have k1: "constantFolding integer_host ?ex ! 1 = ?ex ! 1"
    by (simp add: is_arithmetic_def)
  from len k0 k1 show ?thesis by simp
qed

section \<open>Properties of the lexer\<close>














section \<open>Properties of the parser\<close>

lemma andThen_simps [simp]:
  "andThen OutOfFuel f = OutOfFuel"
  "andThen (Failure e) f = Failure e"
  "andThen (Success a) f = f a"
  by (simp_all add: andThen_def)

text \<open>
  C10. Once \<^verbatim>\<open>forStatement\<close> has parsed the end expression, leaving the cursor at \<open>p5\<close>:
  if the token there is an \<open>IDENTIFIER\<close> whose text is not \<open>step\<close>, the parser moves past
  it without an error and the step is the default literal 1; only an \<open>IDENTIFIER\<close> whose
  text is \<open>step\<close> makes it parse a step expression; any other token is left where it
  is, with the default step. In each case the opening brace and the block follow.
\<close>

theorem forStatement_step_clause:
  assumes "consume ts ''IDENTIFIER'' ''Expected iterator variable'' p = Success (iterator, p1)"
    and "consume ts ''ASSIGN'' ''Expected ='' p1 = Success (t2, p2)"
    and "expression n ts p2 = Success (start, p3)"
    and "consume ts ''TO'' ''Expected to'' p3 = Success (t4, p4)"
    and "expression n ts p4 = Success (end, p5)"
  shows "forStatement n h S ts p =
      andThen
        (if check ts ''IDENTIFIER'' p5 \<and> token_text (ts ! p5) = ''step'' then expression n ts (p5 + 1)
         else if check ts ''IDENTIFIER'' p5 then Success (Literal (Num (num_of_int h 1)), p5 + 1)
         else Success (Literal (Num (num_of_int h 1)), p5))
        (\<lambda>(step, p7).
           andThen (consume ts ''LBRACE'' ''Expected {'' p7)
             (\<lambda>(t, p8).
                andThen (block n S ts p8)
                  (\<lambda>(body, p9).
                     Success (ForStatement (token_text iterator) start end step body, p9))))"
  using assms by (simp add: forStatement_def match_token_def)

lemma for_tokens_lexed: "tokenize integer_host ''for i = 1 to 3 foo { x }'' = Inr for_tokens"
  by code_simp

theorem forStatement_step_clause_witness:
  "forStatement 20 integer_host (statement 20 integer_host for_tokens) for_tokens 1 =
     Success (ForStatement ''i'' (Literal (Num 1)) (Literal (Num 3)) (Literal (Num 1))
                [ExpressionStatement (Identifier ''x'')], 10)"
proof -
  have h1: "consume for_tokens ''IDENTIFIER'' ''Expected iterator variable'' 1
      = Success (for_tokens ! 1, 2)"
    by code_simp
  have h2: "consume for_tokens ''ASSIGN'' ''Expected ='' 2 = Success (for_tokens ! 2, 3)"
    by code_simp
  have h3: "expression 20 for_tokens 3 = Success (Literal (Num 1), 4)"
    by code_simp
  have h4: "consume for_tokens ''TO'' ''Expected to'' 4 = Success (for_tokens ! 4, 5)"
    by code_simp
  have h5: "expression 20 for_tokens 5 = Success (Literal (Num 3), 6)"
    by code_simp
  have c: "check for_tokens ''IDENTIFIER'' 6" "token_text (for_tokens ! 6) = ''foo''"
    "token_text (for_tokens ! Suc 0) = ''i''" "num_of_int integer_host 1 = 1"
    by code_simp+
  have b: "consume for_tokens ''LBRACE'' ''Expected {'' 7 = Success (for_tokens ! 7, 8)"
    "block 20 (statement 20 integer_host for_tokens) for_tokens 8
       = Success ([ExpressionStatement (Identifier ''x'')], 10)"
    by code_simp+
  from forStatement_step_clause [OF h1 h2 h3 h4 h5, of integer_host
      "statement 20 integer_host for_tokens"]
  show ?thesis by (simp add: c b)
qed


section \<open>The evaluator\<close>

lemma seq_simps [simp]:
  "seq None f = None"
  "seq (Some (Normal a, s)) f = f a s"
  "seq (Some (Throw t, s)) f = Some (Throw t, s)"
  "seq (Some (Unmodelled, s)) f = Some (Unmodelled, s)"
  by (simp_all add: seq_def)


subsection \<open>Names inherited from the host's objects\<close>

text \<open>
  C3. The scopes are plain objects of the host and \<^verbatim>\<open>evaluateIdentifier\<close> asks
  \<^verbatim>\<open>name in this.currentScope\<close>, which also sees what every object inherits from
  \<^verbatim>\<open>Object.prototype\<close>. So in a new evaluator, where \<^verbatim>\<open>toString\<close> is bound in no scope,
  not in the global scope and not in the builtin table, the identifier \<^verbatim>\<open>toString\<close>
  evaluates to a value, the host's function, with no error; and the call
  \<^verbatim>\<open>toString()\<close> calls that function and gives whatever it gives, where the property
  claimed is an undefined-variable or not-a-function error.
\<close>

theorem inherited_name_is_defined:
  "evaluateNode (Suc n) h (Identifier ''toString'') Evaluator
     = Some (Normal (NativeFunction ''Object.prototype.toString''), Evaluator)
   \<and> evaluateNode (Suc (Suc n)) h (CallExpression (Identifier ''toString'') []) Evaluator
     = (case js_call h ''Object.prototype.toString'' [] (store Evaluator) of
          (Inl t, st) \<Rightarrow> Some (Throw t, Evaluator\<lparr>store := st\<rparr>)
        | (Inr v, st) \<Rightarrow> Some (Normal v, Evaluator\<lparr>store := st\<rparr>))"
  by (simp add: evaluateIdentifier_def evaluateCallExpression_def Evaluator_def lookup_def
      object_prototype_def object_prototype_names_def split: prod.split sum.split)


subsection \<open>The ceiling of the while loop\<close>

lemma while_loop_counts:
  fixes S :: "int \<Rightarrow> 'n evaluator" and R :: "int \<Rightarrow> 'n val"
  assumes cond: "\<And>k. 0 \<le> k \<Longrightarrow> k \<le> N \<Longrightarrow>
      \<exists>c. ev condition (S k) = Some (Normal c, S k) \<and> (truthy h c \<longleftrightarrow> k < N)"
    and body: "\<And>k. 0 \<le> k \<Longrightarrow> k < N \<Longrightarrow>
      evaluateBlock ev body (S k) = Some (Normal (R (k + 1)), S (k + 1))"
    and bound: "N \<le> maxIterations + 1"
    and k: "0 \<le> k" "k \<le> N"
  shows "while_loop h ev condition body k (R k) (S k) = Some (Normal (R N), S N)"
  using k
proof (induction "nat (N - k)" arbitrary: k)
  case 0
  then have "k = N" by simp
  with cond [of N] "0.prems" show ?case
    by (auto simp: while_loop.simps [of h ev condition body N])
next
  case (Suc d)
  then have lt: "k < N" by simp
  from cond [of k] Suc.prems lt obtain c
    where c: "ev condition (S k) = Some (Normal c, S k)" "truthy h c" by auto
  from lt bound have nk: "\<not> k > maxIterations" by simp
  have "while_loop h ev condition body (k + 1) (R (k + 1)) (S (k + 1)) = Some (Normal (R N), S N)"
    using Suc.hyps(2) Suc.prems lt by (intro Suc.hyps(1)) simp_all
  with c nk body [of k] Suc.prems lt show ?case
    by (simp add: while_loop.simps [of h ev condition body k])
qed

lemma counter_condition_value:
  "evaluateNode (Suc (Suc n)) integer_runtime counter_condition (counter_state k)
     = Some (Normal (BooleanV (k < 1000001)), counter_state k)"
  by (simp add: counter_condition_def counter_state_def evaluateBinaryExpression_def
      evaluateIdentifier_def lookup_def host_operators_def literal_value_def
      integer_runtime_def integer_binary_def)

lemma counter_body_value:
  "evaluateBlock (evaluateNode (Suc (Suc (Suc n))) integer_runtime) counter_body (counter_state k)
     = Some (Normal (NumberV (k + 1)), counter_state (k + 1))"
  by (simp add: counter_body_def counter_state_def evaluateBlock_def evaluateAssignment_def
      compound_operators_def get_property_def lookup_def literal_value_def truthy_def
      assign_variable_def set_property_def integer_runtime_def integer_binary_def Let_def)


text \<open>
  \<^verbatim>\<open>while (true) { }\<close> raises the error: the ceiling is there.
\<close>

lemma while_loop_raises:
  assumes "ev condition s = Some (Normal c, s)" and "truthy h c"
    and "evaluateBlock ev body s = Some (Normal v, s)"
    and "0 \<le> k" and "k \<le> maxIterations + 1"
  shows "while_loop h ev condition body k res s = Some (Throw (Error InfiniteLoop), s)"
  using assms(4,5)
proof (induction "nat (maxIterations + 1 - k)" arbitrary: k res)
  case 0
  then have "k > maxIterations" by simp
  with assms(1,2) show ?case
    by (simp add: while_loop.simps [of h ev condition body k])
next
  case (Suc d)
  then have le: "\<not> k > maxIterations" by simp
  have "while_loop h ev condition body (k + 1) v s = Some (Throw (Error InfiniteLoop), s)"
    using Suc.hyps(2) Suc.prems le by (intro Suc.hyps(1)) simp_all
  with assms(1,2,3) le show ?case
    by (simp add: while_loop.simps [of h ev condition body k])
qed

lemma while_true_raises:
  "evaluateNode (Suc (Suc n)) h (WhileStatement (Literal (Bool True)) []) s
     = Some (Throw (Error InfiniteLoop), s)"
proof -
  have "while_loop h (evaluateNode (Suc n) h) (Literal (Bool True)) [] 0 NullV s
      = Some (Throw (Error InfiniteLoop), s)"
    by (rule while_loop_raises [where c = "BooleanV True" and v = NullV])
       (simp_all add: literal_value_def truthy_def evaluateBlock_def maxIterations_def)
  then show ?thesis
    by (simp add: evaluateWhileStatement_def)
qed

text \<open>
  C4. The test is \<^verbatim>\<open>iterations++ > maxIterations\<close>, on a count that starts at 0, so
  the body runs 1,000,001 times before the error can be raised. With \<^verbatim>\<open>x = 0\<close>, the loop
  \<^verbatim>\<open>while (x < 1000001) { x += 1 }\<close> has a condition that is still truthy after
  1,000,000 iterations; it runs once more and completes normally with the value
  1000001, where the property claimed is the infinite-loop error.
\<close>

theorem while_runs_past_the_ceiling:
  "evaluateNode 5 integer_runtime (WhileStatement counter_condition counter_body) (counter_state 0)
     = Some (Normal (NumberV 1000001), counter_state 1000001)"
proof -
  let ?ev = "evaluateNode 4 integer_runtime"
  let ?R = "\<lambda>k::int. if k = 0 then NullV else NumberV k"
  have four: "(4::nat) = Suc (Suc (Suc (Suc 0)))" by simp
  have "while_loop integer_runtime ?ev counter_condition counter_body 0 (?R 0) (counter_state 0)
      = Some (Normal (?R 1000001), counter_state 1000001)"
  proof (rule while_loop_counts [where N = 1000001 and S = counter_state and R = ?R])
    fix k :: int assume "0 \<le> k" "k \<le> 1000001"
    have "?ev counter_condition (counter_state k)
        = Some (Normal (BooleanV (k < 1000001)), counter_state k)"
      unfolding four by (rule counter_condition_value)
    moreover have "truthy integer_runtime (BooleanV (k < 1000001)) \<longleftrightarrow> k < 1000001"
      by (simp add: truthy_def)
    ultimately show "\<exists>c. ?ev counter_condition (counter_state k) = Some (Normal c, counter_state k)
        \<and> (truthy integer_runtime c \<longleftrightarrow> k < 1000001)"
      by blast
  next
    fix k :: int assume "0 \<le> k" "k < 1000001"
    then have "?R (k + 1) = NumberV (k + 1)" by simp
    moreover have "evaluateBlock ?ev counter_body (counter_state k)
        = Some (Normal (NumberV (k + 1)), counter_state (k + 1))"
      unfolding four by (rule counter_body_value)
    ultimately show "evaluateBlock ?ev counter_body (counter_state k)
        = Some (Normal (?R (k + 1)), counter_state (k + 1))"
      by (simp only:)
  qed (simp_all add: maxIterations_def)
  moreover have "evaluateNode 5 integer_runtime (WhileStatement counter_condition counter_body)
      (counter_state 0)
    = while_loop integer_runtime ?ev counter_condition counter_body 0 NullV (counter_state 0)"
    by (simp add: evaluateWhileStatement_def eval_nat_numeral del: evaluateNode.simps)
       (simp add: evaluateWhileStatement_def)
  ultimately show ?thesis by simp
qed


subsection \<open>Assignment in a child scope\<close>




subsection \<open>The for loop has no ceiling\<close>










section \<open>The engine and its one global scope\<close>

subsection \<open>No method of the evaluator replaces the global scope\<close>

lemma rooted_currentScope [simp]: "rooted g (s\<lparr>currentScope := c\<rparr>) = rooted g s"
  by (simp add: rooted_def)

lemma rooted_store [simp]: "rooted g (s\<lparr>store := c\<rparr>) = rooted g s"
  by (simp add: rooted_def)

lemma keeps_None [simp, intro!]: "keeps g None"
  by (simp add: keeps_def)

lemma keeps_Some [simp]: "keeps g (Some (c, s')) \<longleftrightarrow> rooted g s'"
  by (simp add: keeps_def)












































subsection \<open>Two calls with the same source\<close>

lemma increment_parsed:
  "(case tokenize integer_runtime ''x += 1'' of
      Inl e \<Rightarrow> None
    | Inr tokens \<Rightarrow> Some (parse 10 integer_runtime tokens)) = Some (Success increment_program)"
  by code_simp

lemma increment_first:
  "evaluateNode 10 integer_runtime increment_program Evaluator
     = Some (Normal (NumberV 1), counter_state 1)"
  by (simp add: increment_program_def counter_state_def Evaluator_def evaluateProgram_def
      evaluateAssignment_def
      compound_operators_def get_property_def lookup_def literal_value_def truthy_def
      assign_variable_def set_property_def integer_runtime_def integer_binary_def Let_def
      object_prototype_def object_prototype_names_def eval_nat_numeral)


lemma execute_first:
  "execute 10 integer_runtime ''x += 1'' LumosEngine = Some (Returned (NumberV 1), counter_engine 1)"
  using increment_parsed increment_first
  by (auto simp: execute_def evaluate_def LumosEngine_def counter_engine_def split: sum.splits)






end
